theory Spec2Isabelle
  imports Main
begin

chapter \<open>The model\<close>

section \<open>ECMAScript date arithmetic\<close>

text \<open>
  A JavaScript \<^verbatim>\<open>Date\<close> holds a time value: milliseconds since the epoch, or NaN
  (an Invalid Date). The calendar functions below are the abstract operations of
  ECMAScript (Day, DaysInYear, DayFromYear, YearFromTime, MonthFromTime, DateFromTime,
  MakeDay, MakeDate, TimeClip) on integers. The host time zone is a fixed offset
  \<open>tza\<close> in milliseconds (local time minus UTC); daylight-saving transitions are not
  modelled.
\<close>

definition msPerDay :: int where
  "msPerDay = 86400000"

definition Day :: "int \<Rightarrow> int" where
  "Day t = t div msPerDay"

definition TimeWithinDay :: "int \<Rightarrow> int" where
  "TimeWithinDay t = t mod msPerDay"

definition InLeapYear :: "int \<Rightarrow> bool" where
  "InLeapYear y = (y mod 4 = 0 \<and> (y mod 100 \<noteq> 0 \<or> y mod 400 = 0))"

definition DaysInYear :: "int \<Rightarrow> int" where
  "DaysInYear y = (if InLeapYear y then 366 else 365)"

definition DayFromYear :: "int \<Rightarrow> int" where
  "DayFromYear y =
     365 * (y - 1970) + (y - 1969) div 4 - (y - 1901) div 100 + (y - 1601) div 400"

text \<open>
  ECMAScript's YearFromTime is the largest year whose first day is not after the given
  day. \<open>YearFromDay\<close> computes it from an estimate that is never more than one year too
  large; lemma \<open>YearFromDay_bounds\<close> shows it is that year.
\<close>

definition YearFromDay :: "int \<Rightarrow> int" where
  "YearFromDay d =
     (let y = 1970 + (400 * d + 506) div 146097
      in if DayFromYear y \<le> d then y else y - 1)"

definition DayWithinYear :: "int \<Rightarrow> int" where
  "DayWithinYear d = d - DayFromYear (YearFromDay d)"

text \<open>The number of days of a year that precede month \<open>m\<close> (0 = January).\<close>

definition DaysBeforeMonth :: "bool \<Rightarrow> int \<Rightarrow> int" where
  "DaysBeforeMonth leap m =
     (let l = (if leap then 1 else 0) in
      if m = 0 then 0 else if m = 1 then 31 else if m = 2 then 59 + l
      else if m = 3 then 90 + l else if m = 4 then 120 + l else if m = 5 then 151 + l
      else if m = 6 then 181 + l else if m = 7 then 212 + l else if m = 8 then 243 + l
      else if m = 9 then 273 + l else if m = 10 then 304 + l else if m = 11 then 334 + l
      else 365 + l)"

definition MonthFromDay :: "int \<Rightarrow> int" where
  "MonthFromDay d =
     (let w = DayWithinYear d; leap = InLeapYear (YearFromDay d) in
      if w < DaysBeforeMonth leap 1 then 0 else if w < DaysBeforeMonth leap 2 then 1
      else if w < DaysBeforeMonth leap 3 then 2 else if w < DaysBeforeMonth leap 4 then 3
      else if w < DaysBeforeMonth leap 5 then 4 else if w < DaysBeforeMonth leap 6 then 5
      else if w < DaysBeforeMonth leap 7 then 6 else if w < DaysBeforeMonth leap 8 then 7
      else if w < DaysBeforeMonth leap 9 then 8 else if w < DaysBeforeMonth leap 10 then 9
      else if w < DaysBeforeMonth leap 11 then 10 else 11)"

definition DateFromDay :: "int \<Rightarrow> int" where
  "DateFromDay d =
     DayWithinYear d - DaysBeforeMonth (InLeapYear (YearFromDay d)) (MonthFromDay d) + 1"

definition MakeDay :: "int \<Rightarrow> int \<Rightarrow> int \<Rightarrow> int" where
  "MakeDay year month date =
     (let ym = year + month div 12; mn = month mod 12
      in DayFromYear ym + DaysBeforeMonth (InLeapYear ym) mn + date - 1)"

definition MakeDate :: "int \<Rightarrow> int \<Rightarrow> int" where
  "MakeDate day time = day * msPerDay + time"

definition TimeClip :: "int \<Rightarrow> int option" where
  "TimeClip t = (if \<bar>t\<bar> > 8640000000000000 then None else Some t)"

definition LocalTime :: "int \<Rightarrow> int \<Rightarrow> int" where
  "LocalTime tza t = t + tza"

definition UTC :: "int \<Rightarrow> int \<Rightarrow> int" where
  "UTC tza t = t - tza"

section \<open>Strings and numbers\<close>

text \<open>
  Strings are lists of characters, one character per UTF-16 code unit. A JavaScript
  number that may be NaN is an \<open>int option\<close> (\<open>None\<close> is NaN); the numbers that
  occur here are integers.
\<close>

definition digit_char :: "nat \<Rightarrow> char" where
  "digit_char n = ''0123456789'' ! (n mod 10)"

definition digit_val :: "char \<Rightarrow> nat option" where
  "digit_val c = map_of (zip ''0123456789'' [0, 1, 2, 3, 4, 5, 6, 7, 8, 9]) c"

fun digits_of :: "nat \<Rightarrow> string" where
  "digits_of n = (if n < 10 then [digit_char n] else digits_of (n div 10) @ [digit_char n])"

declare digits_of.simps [simp del]

text \<open>\<^verbatim>\<open>String(x)\<close> and template interpolation of a number.\<close>

definition String :: "int option \<Rightarrow> string" where
  "String x =
     (case x of None \<Rightarrow> ''NaN''
      | Some i \<Rightarrow> if i < 0 then CHR ''-'' # digits_of (nat (- i)) else digits_of (nat i))"

text \<open>\<^verbatim>\<open>s.padStart(n, c)\<close> for a one-character pad string.\<close>

definition padStart :: "nat \<Rightarrow> char \<Rightarrow> string \<Rightarrow> string" where
  "padStart n c s = replicate (n - length s) c @ s"

text \<open>\<^verbatim>\<open>s.split(c)\<close> for a one-character separator.\<close>

fun split :: "char \<Rightarrow> string \<Rightarrow> string list" where
  "split c [] = [[]]"
| "split c (x # xs) =
     (if x = c then [] # split c xs
      else (case split c xs of [] \<Rightarrow> [[x]] | w # ws \<Rightarrow> (x # w) # ws))"

fun parse_digits :: "nat \<Rightarrow> string \<Rightarrow> nat option" where
  "parse_digits acc [] = Some acc"
| "parse_digits acc (c # cs) =
     (case digit_val c of None \<Rightarrow> None | Some v \<Rightarrow> parse_digits (10 * acc + v) cs)"

text \<open>
  \<^verbatim>\<open>Number(s)\<close> on the empty string (0) and on decimal integer literals with an
  optional sign; every other string is NaN here (the fraction, exponent, radix-prefix,
  \<^verbatim>\<open>Infinity\<close> and white-space forms of a numeric string are left out: none is an
  integer written by \<open>String\<close>).
\<close>

definition Number :: "string \<Rightarrow> int option" where
  "Number s =
     (case s of
        [] \<Rightarrow> Some 0
      | c # cs \<Rightarrow>
          if c = CHR ''-'' then (if cs = [] then None else map_option (\<lambda>n. - int n) (parse_digits 0 cs))
          else if c = CHR ''+'' then (if cs = [] then None else map_option int (parse_digits 0 cs))
          else map_option int (parse_digits 0 s))"

section \<open>The Date object\<close>

text \<open>A \<^verbatim>\<open>Date\<close> is its time value; \<open>None\<close> is an Invalid Date.\<close>

type_synonym jsdate = "int option"

text \<open>\<^verbatim>\<open>new Date(year, monthIndex, day)\<close>: local midnight of the given fields.\<close>

definition newDate :: "int \<Rightarrow> int option \<Rightarrow> int option \<Rightarrow> int option \<Rightarrow> jsdate" where
  "newDate tza year month day =
     (case (year, month, day) of
        (Some y, Some m, Some dt) \<Rightarrow>
          (let yr = (if 0 \<le> y \<and> y \<le> 99 then 1900 + y else y)
           in TimeClip (UTC tza (MakeDate (MakeDay yr m dt) 0)))
      | _ \<Rightarrow> None)"

definition getFullYear :: "int \<Rightarrow> jsdate \<Rightarrow> int option" where
  "getFullYear tza date = map_option (\<lambda>t. YearFromDay (Day (LocalTime tza t))) date"

definition getMonth :: "int \<Rightarrow> jsdate \<Rightarrow> int option" where
  "getMonth tza date = map_option (\<lambda>t. MonthFromDay (Day (LocalTime tza t))) date"

definition getDate :: "int \<Rightarrow> jsdate \<Rightarrow> int option" where
  "getDate tza date = map_option (\<lambda>t. DateFromDay (Day (LocalTime tza t))) date"

section \<open>lib/date-utils.ts\<close>

definition formatDateForDb :: "int \<Rightarrow> jsdate \<Rightarrow> string" where
  "formatDateForDb tza date =
     (let year = getFullYear tza date;
          month = padStart 2 CHR ''0'' (String (map_option (\<lambda>m. m + 1) (getMonth tza date)));
          day = padStart 2 CHR ''0'' (String (getDate tza date))
      in String year @ ''-'' @ month @ ''-'' @ day)"

text \<open>
  Destructuring \<^verbatim>\<open>[year, month, day]\<close> reads the first three elements; a missing
  element is \<^verbatim>\<open>undefined\<close>, which is NaN as a number.
\<close>

definition element :: "int option list \<Rightarrow> nat \<Rightarrow> int option" where
  "element xs i = (if i < length xs then xs ! i else None)"

definition parseDateFromDb :: "int \<Rightarrow> string \<Rightarrow> jsdate" where
  "parseDateFromDb tza dateString =
     (let parts = map Number (split CHR ''-'' dateString);
          year = element parts 0; month = element parts 1; day = element parts 2
      in newDate tza year (map_option (\<lambda>m. m - 1) month) day)"

section \<open>Dates from and to ISO strings\<close>

text \<open>
  \<^verbatim>\<open>new Date(s)\<close> for a string in the date-only form \<^verbatim>\<open>YYYY-MM-DD\<close>, which
  ECMAScript reads as midnight UTC of that day. The other ISO forms and the strings that
  engines read by their own rules are left out: they are an Invalid Date here.
\<close>

definition is_digits :: "string \<Rightarrow> bool" where
  "is_digits s = list_all (\<lambda>c. digit_val c \<noteq> None) s"

definition DaysInMonth :: "int \<Rightarrow> int \<Rightarrow> int" where
  "DaysInMonth y m = DaysBeforeMonth (InLeapYear y) (m + 1) - DaysBeforeMonth (InLeapYear y) m"

definition newDateFromString :: "string \<Rightarrow> jsdate" where
  "newDateFromString s =
     (case split CHR ''-'' s of
        [ys, ms, ds] \<Rightarrow>
          if length ys = 4 \<and> length ms = 2 \<and> length ds = 2 \<and>
             is_digits ys \<and> is_digits ms \<and> is_digits ds
          then (case (parse_digits 0 ys, parse_digits 0 ms, parse_digits 0 ds) of
                  (Some y, Some m, Some d) \<Rightarrow>
                    if 1 \<le> m \<and> m \<le> 12 \<and> 1 \<le> d \<and> int d \<le> DaysInMonth (int y) (int m - 1)
                    then TimeClip (MakeDate (MakeDay (int y) (int m - 1) (int d)) 0)
                    else None
                | _ \<Rightarrow> None)
          else None
      | _ \<Rightarrow> None)"

text \<open>
  What the code throws: the \<^verbatim>\<open>Error("Unauthorized")\<close> of the data layer, the
  \<^verbatim>\<open>RangeError\<close> of \<^verbatim>\<open>toISOString\<close> on an Invalid Date, and the error with which the
  query builder's \<^verbatim>\<open>set\<close> rejects an update that sets no column. A function that can
  throw returns \<open>error + 'a\<close>.
\<close>

datatype error = Unauthorized | RangeError | NoValuesToSet

text \<open>\<^verbatim>\<open>date.toISOString()\<close>: the UTC fields of the time value.\<close>

definition toISOString :: "jsdate \<Rightarrow> error + string" where
  "toISOString date =
     (case date of
        None \<Rightarrow> Inl RangeError
      | Some t \<Rightarrow>
          (let d = Day t; y = YearFromDay d; ms = TimeWithinDay t;
               year = (if 0 \<le> y \<and> y \<le> 9999 then padStart 4 CHR ''0'' (String (Some y))
                       else (if y < 0 then CHR ''-'' else CHR ''+'') #
                            padStart 6 CHR ''0'' (String (Some \<bar>y\<bar>)));
               two = (\<lambda>n. padStart 2 CHR ''0'' (String (Some n)))
           in Inr (year @ ''-'' @ two (MonthFromDay d + 1) @ ''-'' @ two (DateFromDay d) @
                   ''T'' @ two (ms div 3600000) @ '':'' @ two (ms div 60000 mod 60) @ '':'' @
                   two (ms div 1000 mod 60) @ ''.'' @
                   padStart 3 CHR ''0'' (String (Some (ms mod 1000))) @ ''Z'')))"

section \<open>The schema and the database\<close>

text \<open>
  The four tables of the schema, with the columns the operations read or write. A
  nullable column is an \<open>option\<close>. The \<^verbatim>\<open>date\<close> column is held as the text
  \<^verbatim>\<open>YYYY-MM-DD\<close> in which the driver returns it, \<^verbatim>\<open>numeric\<close> as its text, and the
  time stamps as integers.
\<close>

record exercise_row =
  e_id :: int
  e_name :: string
  e_description :: "string option"

record workout_row =
  w_id :: int
  w_userId :: string
  w_date :: string
  w_name :: "string option"
  w_durationMinutes :: "int option"
  w_notes :: "string option"
  w_createdAt :: int
  w_updatedAt :: int

record workout_exercise_row =
  we_id :: int
  we_workoutId :: int
  we_exerciseId :: int
  we_order :: int
  we_notes :: "string option"

record set_row =
  s_id :: int
  s_workoutExerciseId :: int
  s_setNumber :: int
  s_isBodyweight :: bool
  s_weight :: "string option"
  s_reps :: int
  s_rpe :: "int option"
  s_notes :: "string option"

text \<open>
  Every statement sent to the database is recorded with the conditions of its
  \<^verbatim>\<open>where\<close> clause, so that a property can speak of the storage accesses an
  operation makes.
\<close>

datatype workout_condition =
  UserIdEq string | DateEq string | DateGte string | DateLte string | IdEq int

datatype workout_exercise_condition = WorkoutIdEq int

datatype statement =
  SelectWorkouts "workout_condition list"
| SelectDistinctWorkoutDates "workout_condition list"
| InsertWorkout
| UpdateWorkouts "workout_condition list"
| DeleteWorkouts "workout_condition list"
| SelectWorkoutExercises "workout_exercise_condition list"

text \<open>
  The state of the database: the rows of each table in storage order, the sequence
  behind \<^verbatim>\<open>workouts.id\<close>, the clock that \<^verbatim>\<open>defaultNow()\<close> reads, and the
  statements received so far.
\<close>

record db =
  workouts :: "workout_row list"
  exercises :: "exercise_row list"
  workoutExercises :: "workout_exercise_row list"
  sets :: "set_row list"
  workouts_id_seq :: int
  now :: int
  statements :: "statement list"

definition sent :: "statement \<Rightarrow> db \<Rightarrow> db" where
  "sent st d = d\<lparr>statements := statements d @ [st]\<rparr>"

text \<open>
  A date text as a day number, for the comparisons \<^verbatim>\<open>gte\<close> and \<^verbatim>\<open>lte\<close> on the
  \<^verbatim>\<open>date\<close> column, which compare dates and not texts. A text that is not three
  numbers joined by \<^verbatim>\<open>-\<close> has none and satisfies no comparison (the database rejects
  it; the rejection is not modelled).
\<close>

definition date_ordinal :: "string \<Rightarrow> int option" where
  "date_ordinal s =
     (case split CHR ''-'' s of
        [ys, ms, ds] \<Rightarrow>
          if ys \<noteq> [] \<and> ms \<noteq> [] \<and> ds \<noteq> [] then
            (case (parse_digits 0 ys, parse_digits 0 ms, parse_digits 0 ds) of
               (Some y, Some m, Some d) \<Rightarrow> Some (MakeDay (int y) (int m - 1) (int d))
             | _ \<Rightarrow> None)
          else None
      | _ \<Rightarrow> None)"

definition date_le :: "string \<Rightarrow> string \<Rightarrow> bool" where
  "date_le a b =
     (case (date_ordinal a, date_ordinal b) of (Some x, Some y) \<Rightarrow> x \<le> y | _ \<Rightarrow> False)"

fun holds :: "workout_condition \<Rightarrow> workout_row \<Rightarrow> bool" where
  "holds (UserIdEq u) r = (w_userId r = u)"
| "holds (DateEq s) r = (w_date r = s)"
| "holds (DateGte s) r = date_le s (w_date r)"
| "holds (DateLte s) r = date_le (w_date r) s"
| "holds (IdEq i) r = (w_id r = i)"

text \<open>\<^verbatim>\<open>where(and(c1, ..., cn))\<close>: the rows that satisfy every condition.\<close>

definition matching :: "workout_condition list \<Rightarrow> workout_row \<Rightarrow> bool" where
  "matching cs r = list_all (\<lambda>c. holds c r) cs"

text \<open>
  \<^verbatim>\<open>select().from(workouts).where(...)\<close>. Without an \<^verbatim>\<open>orderBy\<close> the rows come in
  storage order (SQL promises no order; this is the order of a sequential scan).
\<close>

definition select_workouts :: "workout_condition list \<Rightarrow> db \<Rightarrow> workout_row list \<times> db" where
  "select_workouts cs d = (filter (matching cs) (workouts d), sent (SelectWorkouts cs) d)"

text \<open>\<^verbatim>\<open>orderBy(desc(workouts.createdAt))\<close>: a stable sort, latest first.\<close>

definition order_by_createdAt_desc :: "workout_row list \<Rightarrow> workout_row list" where
  "order_by_createdAt_desc rows = sort_key (\<lambda>r. - w_createdAt r) rows"

text \<open>\<^verbatim>\<open>selectDistinct({ date: workouts.date })\<close>: each date once.\<close>

definition select_distinct_dates :: "workout_condition list \<Rightarrow> db \<Rightarrow> string list \<times> db" where
  "select_distinct_dates cs d =
     (remdups (map w_date (filter (matching cs) (workouts d))),
      sent (SelectDistinctWorkoutDates cs) d)"

text \<open>
  \<^verbatim>\<open>insert(workouts).values(...).returning()\<close>: the new row takes the next value
  of the sequence and the current time.
\<close>

definition insert_workout ::
  "string \<Rightarrow> string \<Rightarrow> string option \<Rightarrow> int option \<Rightarrow> string option \<Rightarrow> db \<Rightarrow> workout_row \<times> db" where
  "insert_workout userId date name durationMinutes notes d =
     (let row = \<lparr>w_id = workouts_id_seq d + 1, w_userId = userId, w_date = date,
                  w_name = name, w_durationMinutes = durationMinutes, w_notes = notes,
                  w_createdAt = now d, w_updatedAt = now d\<rparr>
      in (row, sent InsertWorkout
                 (d\<lparr>workouts := workouts d @ [row], workouts_id_seq := workouts_id_seq d + 1\<rparr>)))"

text \<open>
  The values of \<^verbatim>\<open>update(workouts).set(...)\<close>: a field that is \<^verbatim>\<open>undefined\<close> is
  not set.
\<close>

record update_values =
  uv_name :: "string option"
  uv_date :: "string option"
  uv_durationMinutes :: "int option"
  uv_notes :: "string option"

definition apply_update :: "update_values \<Rightarrow> workout_row \<Rightarrow> workout_row" where
  "apply_update v r =
     r\<lparr>w_name := (case uv_name v of None \<Rightarrow> w_name r | Some n \<Rightarrow> Some n),
       w_date := (case uv_date v of None \<Rightarrow> w_date r | Some s \<Rightarrow> s),
       w_durationMinutes :=
         (case uv_durationMinutes v of None \<Rightarrow> w_durationMinutes r | Some n \<Rightarrow> Some n),
       w_notes := (case uv_notes v of None \<Rightarrow> w_notes r | Some n \<Rightarrow> Some n)\<rparr>"

definition no_values :: "update_values \<Rightarrow> bool" where
  "no_values v =
     (uv_name v = None \<and> uv_date v = None \<and> uv_durationMinutes v = None \<and> uv_notes v = None)"

text \<open>
  \<^verbatim>\<open>update(workouts).set(v).where(...).returning()\<close>. \<^verbatim>\<open>set\<close> throws when no field
  is defined, before anything is sent.
\<close>

definition update_workouts ::
  "update_values \<Rightarrow> workout_condition list \<Rightarrow> db \<Rightarrow> (error + workout_row list) \<times> db" where
  "update_workouts v cs d =
     (if no_values v then (Inl NoValuesToSet, d)
      else (Inr (map (apply_update v) (filter (matching cs) (workouts d))),
            sent (UpdateWorkouts cs)
              (d\<lparr>workouts := map (\<lambda>r. if matching cs r then apply_update v r else r) (workouts d)\<rparr>)))"

text \<open>
  \<^verbatim>\<open>delete(workouts).where(...).returning()\<close>. The foreign keys are declared
  \<^verbatim>\<open>onDelete: 'cascade'\<close>: the workout's exercises go with it, and their sets.
\<close>

definition delete_workouts :: "workout_condition list \<Rightarrow> db \<Rightarrow> workout_row list \<times> db" where
  "delete_workouts cs d =
     (let gone = filter (matching cs) (workouts d);
          gone_we = filter (\<lambda>we. we_workoutId we \<in> set (map w_id gone)) (workoutExercises d)
      in (gone,
          sent (DeleteWorkouts cs)
            (d\<lparr>workouts := filter (\<lambda>r. \<not> matching cs r) (workouts d),
               workoutExercises :=
                 filter (\<lambda>we. we_workoutId we \<notin> set (map w_id gone)) (workoutExercises d),
               sets :=
                 filter (\<lambda>s. s_workoutExerciseId s \<notin> set (map we_id gone_we)) (sets d)\<rparr>)))"

text \<open>
  One row of \<^verbatim>\<open>from(workoutExercises).innerJoin(exercises, ...).leftJoin(sets, ...)\<close>:
  the set is \<^verbatim>\<open>null\<close> when the exercise of the workout has no set.
\<close>

record joined_row =
  workoutExercise :: workout_exercise_row
  exercise :: exercise_row
  set_of :: "set_row option"

definition join_rows :: "db \<Rightarrow> workout_exercise_row \<Rightarrow> joined_row list" where
  "join_rows d we =
     concat (map (\<lambda>e.
        (let ss = filter (\<lambda>s. s_workoutExerciseId s = we_id we) (sets d)
         in if ss = [] then [\<lparr>workoutExercise = we, exercise = e, set_of = None\<rparr>]
            else map (\<lambda>s. \<lparr>workoutExercise = we, exercise = e, set_of = Some s\<rparr>) ss))
        (filter (\<lambda>e. e_id e = we_exerciseId we) (exercises d)))"

definition select_workout_exercises :: "int \<Rightarrow> db \<Rightarrow> joined_row list \<times> db" where
  "select_workout_exercises workoutId d =
     (concat (map (join_rows d) (filter (\<lambda>we. we_workoutId we = workoutId) (workoutExercises d))),
      sent (SelectWorkoutExercises [WorkoutIdEq workoutId]) d)"

section \<open>The identity provider\<close>

text \<open>
  \<^verbatim>\<open>const { userId } = await auth()\<close> is the parameter \<open>caller\<close> of every operation
  that calls it; \<^verbatim>\<open>!userId\<close> holds of \<^verbatim>\<open>null\<close> and of the empty string.
\<close>

definition not_signed_in :: "string option \<Rightarrow> bool" where
  "not_signed_in userId = (userId = None \<or> userId = Some [])"

section \<open>src/data/workouts.ts\<close>

text \<open>
  The helpers of the write layer. Each takes the caller that \<^verbatim>\<open>auth()\<close> resolves
  and the database, and returns what it returns or throws together with the database
  after it.
\<close>

record create_data =
  cd_name :: string
  cd_date :: jsdate
  cd_durationMinutes :: "int option"
  cd_notes :: "string option"

text \<open>
  \<^verbatim>\<open>date.toISOString().split("T")[0]\<close>; a split has a first element
  (lemma \<open>split_not_Nil\<close>).
\<close>

definition iso_date_part :: "jsdate \<Rightarrow> error + string" where
  "iso_date_part date =
     (case toISOString date of Inl e \<Rightarrow> Inl e | Inr s \<Rightarrow> Inr (hd (split CHR ''T'' s)))"

definition createWorkout :: "string option \<Rightarrow> create_data \<Rightarrow> db \<Rightarrow> (error + workout_row) \<times> db" where
  "createWorkout caller data d =
     (if not_signed_in caller then (Inl Unauthorized, d)
      else (case iso_date_part (cd_date data) of
              Inl e \<Rightarrow> (Inl e, d)
            | Inr date \<Rightarrow>
                (let (workout, d') =
                       insert_workout (the caller) date (Some (cd_name data))
                         (cd_durationMinutes data) (cd_notes data) d
                 in (Inr workout, d'))))"

text \<open>
  \<^verbatim>\<open>orderBy(desc(workouts.date)).limit(limit)\<close>; the caller of
  \<^verbatim>\<open>getRecentWorkouts\<close> that gives no limit gets 10.
\<close>

definition order_by_date_desc :: "workout_row list \<Rightarrow> workout_row list" where
  "order_by_date_desc rows =
     sort_key (\<lambda>r. - (case date_ordinal (w_date r) of None \<Rightarrow> 0 | Some x \<Rightarrow> x)) rows"

definition getRecentWorkouts :: "string option \<Rightarrow> nat \<Rightarrow> db \<Rightarrow> (error + workout_row list) \<times> db" where
  "getRecentWorkouts caller limit d =
     (if not_signed_in caller then (Inl Unauthorized, d)
      else (let (rows, d') = select_workouts [UserIdEq (the caller)] d
            in (Inr (take limit (order_by_date_desc rows)), d')))"

text \<open>\<^verbatim>\<open>const [workout] = rows\<close>: the first row, or \<^verbatim>\<open>undefined\<close>.\<close>

definition first_row :: "'a list \<Rightarrow> 'a option" where
  "first_row rows = (case rows of [] \<Rightarrow> None | r # _ \<Rightarrow> Some r)"

definition getWorkoutById :: "string option \<Rightarrow> int \<Rightarrow> db \<Rightarrow> (error + workout_row option) \<times> db" where
  "getWorkoutById caller workoutId d =
     (if not_signed_in caller then (Inl Unauthorized, d)
      else (let (rows, d') = select_workouts [IdEq workoutId, UserIdEq (the caller)] d
            in (Inr (first_row (take 1 rows)), d')))"

record update_data =
  ud_name :: "string option"
  ud_date :: "jsdate option"
  ud_durationMinutes :: "int option"
  ud_notes :: "string option"

definition updateWorkout ::
  "string option \<Rightarrow> int \<Rightarrow> update_data \<Rightarrow> db \<Rightarrow> (error + workout_row option) \<times> db" where
  "updateWorkout caller workoutId data d =
     (if not_signed_in caller then (Inl Unauthorized, d)
      else (let updateData = \<lparr>uv_name = ud_name data, uv_date = None,
                               uv_durationMinutes = ud_durationMinutes data,
                               uv_notes = ud_notes data\<rparr>
            in (case (case ud_date data of
                        None \<Rightarrow> Inr updateData
                      | Some date \<Rightarrow>
                          (case iso_date_part date of
                             Inl e \<Rightarrow> Inl e
                           | Inr s \<Rightarrow> Inr (updateData\<lparr>uv_date := Some s\<rparr>))) of
                  Inl e \<Rightarrow> (Inl e, d)
                | Inr updateData \<Rightarrow>
                    (case update_workouts updateData [IdEq workoutId, UserIdEq (the caller)] d of
                       (Inl e, d') \<Rightarrow> (Inl e, d')
                     | (Inr rows, d') \<Rightarrow> (Inr (first_row rows), d')))))"

definition deleteWorkout :: "string option \<Rightarrow> int \<Rightarrow> db \<Rightarrow> (error + workout_row option) \<times> db" where
  "deleteWorkout caller workoutId d =
     (if not_signed_in caller then (Inl Unauthorized, d)
      else (let (rows, d') = delete_workouts [IdEq workoutId, UserIdEq (the caller)] d
            in (Inr (first_row rows), d')))"

section \<open>The queries by user (second part of src/data/workouts.ts)\<close>

text \<open>
  \<^verbatim>\<open>db.query.workouts.findMany\<close> with its nested relations: the workouts of the
  user on the date, latest first, each with its exercises by \<^verbatim>\<open>order\<close> and their
  sets by \<^verbatim>\<open>setNumber\<close>.
\<close>

record exercise_details =
  xd_row :: workout_exercise_row
  xd_exercise :: "exercise_row option"
  xd_sets :: "set_row list"

record workout_details =
  wd_row :: workout_row
  wd_workoutExercises :: "exercise_details list"

definition details_of :: "db \<Rightarrow> workout_row \<Rightarrow> workout_details" where
  "details_of d w =
     \<lparr>wd_row = w,
      wd_workoutExercises =
        map (\<lambda>we. \<lparr>xd_row = we,
                    xd_exercise = find (\<lambda>e. e_id e = we_exerciseId we) (exercises d),
                    xd_sets = sort_key s_setNumber
                                (filter (\<lambda>s. s_workoutExerciseId s = we_id we) (sets d))\<rparr>)
          (sort_key we_order (filter (\<lambda>we. we_workoutId we = w_id w) (workoutExercises d)))\<rparr>"

definition getWorkoutsByUserAndDate :: "string \<Rightarrow> string \<Rightarrow> db \<Rightarrow> workout_details list" where
  "getWorkoutsByUserAndDate userId date d =
     map (details_of d)
       (order_by_createdAt_desc (filter (matching [UserIdEq userId, DateEq date]) (workouts d)))"

text \<open>\<^verbatim>\<open>selectDistinct ... orderBy(workouts.date)\<close>: the dates in ascending order.\<close>

definition order_by_date :: "string list \<Rightarrow> string list" where
  "order_by_date dates =
     sort_key (\<lambda>s. case date_ordinal s of None \<Rightarrow> 0 | Some x \<Rightarrow> x) dates"

definition getWorkoutDatesForUser :: "string \<Rightarrow> string \<Rightarrow> string \<Rightarrow> db \<Rightarrow> string list" where
  "getWorkoutDatesForUser userId startDate endDate d =
     order_by_date
       (fst (select_distinct_dates [UserIdEq userId, DateGte startDate, DateLte endDate] d))"

section \<open>data/workouts.ts\<close>

text \<open>
  The view that \<^verbatim>\<open>getWorkoutsByDate\<close> returns. \<^verbatim>\<open>parseFloat(weight)\<close> is kept as
  the text it is applied to.
\<close>

datatype jsfloat = parseFloat string

record set_view =
  setNumber :: int
  weight :: "jsfloat option"
  reps :: int
  rpe :: "int option"
  isBodyweight :: bool

record exercise_view =
  ev_id :: int
  ev_name :: string
  ev_sets :: "set_view list"

record workout_view =
  wv_id :: int
  wv_name :: "string option"
  wv_date :: jsdate
  wv_durationMinutes :: "int option"
  wv_notes :: "string option"
  wv_exercises :: "exercise_view list"

text \<open>The object pushed for a joined set; a weight is truthy when it is a non-empty text.\<close>

definition set_view_of :: "set_row \<Rightarrow> set_view" where
  "set_view_of s =
     \<lparr>setNumber = s_setNumber s,
      weight = (case s_weight s of None \<Rightarrow> None
                | Some t \<Rightarrow> if t = [] then None else Some (parseFloat t)),
      reps = s_reps s, rpe = s_rpe s, isBodyweight = s_isBodyweight s\<rparr>"

text \<open>
  \<^verbatim>\<open>exercisesMap\<close> is a \<^verbatim>\<open>Map\<close> keyed by \<^verbatim>\<open>exerciseId\<close>: an association list in
  insertion order, every key once.
\<close>

type_synonym exercises_map = "(int \<times> exercise_view) list"

definition has_key :: "exercises_map \<Rightarrow> int \<Rightarrow> bool" where
  "has_key m k = (k \<in> set (map fst m))"

definition push_set :: "int \<Rightarrow> set_view \<Rightarrow> exercises_map \<Rightarrow> exercises_map" where
  "push_set k s m = map (\<lambda>(k', e). if k' = k then (k', e\<lparr>ev_sets := ev_sets e @ [s]\<rparr>) else (k', e)) m"

text \<open>The body of \<^verbatim>\<open>workoutExercisesForWorkout.forEach\<close>.\<close>

definition add_item :: "exercises_map \<Rightarrow> joined_row \<Rightarrow> exercises_map" where
  "add_item m item =
     (let exerciseId = we_exerciseId (workoutExercise item);
          m' = (if \<not> has_key m exerciseId
                then m @ [(exerciseId, \<lparr>ev_id = e_id (exercise item),
                                         ev_name = e_name (exercise item), ev_sets = []\<rparr>)]
                else m)
      in (case set_of item of None \<Rightarrow> m' | Some s \<Rightarrow> push_set exerciseId (set_view_of s) m'))"

text \<open>
  Grouping the joined rows of one workout: fill the map, then sort the sets of every
  exercise by \<^verbatim>\<open>setNumber\<close> (\<^verbatim>\<open>Array.prototype.sort\<close> is stable).
\<close>

definition exercisesMap :: "joined_row list \<Rightarrow> exercises_map" where
  "exercisesMap items =
     map (\<lambda>(k, e). (k, e\<lparr>ev_sets := sort_key setNumber (ev_sets e)\<rparr>)) (foldl add_item [] items)"

text \<open>\<^verbatim>\<open>Array.from(exercisesMap.values())\<close>.\<close>

definition group_exercises :: "joined_row list \<Rightarrow> exercise_view list" where
  "group_exercises items = map snd (exercisesMap items)"

text \<open>
  \<^verbatim>\<open>Promise.all(workoutIds.map(...))\<close>: one query for each workout, in the order
  of the workouts.
\<close>

fun fetch_all :: "int list \<Rightarrow> db \<Rightarrow> (int \<times> joined_row list) list \<times> db" where
  "fetch_all [] d = ([], d)"
| "fetch_all (workoutId # ids) d =
     (let (data, d') = select_workout_exercises workoutId d;
          (rest, d'') = fetch_all ids d'
      in ((workoutId, data) # rest, d''))"

definition view_of :: "(int \<times> joined_row list) list \<Rightarrow> workout_row \<Rightarrow> workout_view" where
  "view_of allWorkoutExerciseData workout =
     (let workoutExercisesForWorkout =
            (case find (\<lambda>item. fst item = w_id workout) allWorkoutExerciseData of
               None \<Rightarrow> [] | Some workoutData \<Rightarrow> snd workoutData)
      in \<lparr>wv_id = w_id workout, wv_name = w_name workout,
          wv_date = newDateFromString (w_date workout),
          wv_durationMinutes = w_durationMinutes workout, wv_notes = w_notes workout,
          wv_exercises = group_exercises workoutExercisesForWorkout\<rparr>)"

definition getWorkoutsByDate ::
  "int \<Rightarrow> string option \<Rightarrow> jsdate \<Rightarrow> db \<Rightarrow> (error + workout_view list) \<times> db" where
  "getWorkoutsByDate tza caller date d =
     (if not_signed_in caller then (Inl Unauthorized, d)
      else (let dateString = formatDateForDb tza date;
                (rows, d1) = select_workouts [UserIdEq (the caller), DateEq dateString] d;
                userWorkouts = order_by_createdAt_desc rows
            in if userWorkouts = [] then (Inr [], d1)
               else (let (allWorkoutExerciseData, d2) = fetch_all (map w_id userWorkouts) d1
                     in (Inr (map (view_of allWorkoutExerciseData) userWorkouts), d2))))"

definition getWorkoutDatesForMonth ::
  "int \<Rightarrow> string option \<Rightarrow> int \<Rightarrow> int \<Rightarrow> db \<Rightarrow> (error + jsdate list) \<times> db" where
  "getWorkoutDatesForMonth tza caller year month d =
     (if not_signed_in caller then (Inl Unauthorized, d)
      else (let startDate = newDate tza (Some year) (Some month) (Some 1);
                endDate = newDate tza (Some year) (Some (month + 1)) (Some 0);
                startDateString = formatDateForDb tza startDate;
                endDateString = formatDateForDb tza endDate;
                (result, d') =
                  select_distinct_dates
                    [UserIdEq (the caller), DateGte startDateString, DateLte endDateString] d
            in (Inr (map (parseDateFromDb tza) result), d')))"

section \<open>lib/actions/workouts.ts\<close>

text \<open>
  The quick-create action of the dashboard. \<^verbatim>\<open>name || 'Untitled Workout'\<close> takes
  the fallback for \<^verbatim>\<open>undefined\<close> and for the empty string. The action ends by
  redirecting to the edit page of the new workout; the row it inserted is returned here.
\<close>

definition createWorkout_lib ::
  "string option \<Rightarrow> string \<Rightarrow> string option \<Rightarrow> db \<Rightarrow> (error + workout_row) \<times> db" where
  "createWorkout_lib caller date name d =
     (if not_signed_in caller then (Inl Unauthorized, d)
      else (let (newWorkout, d') =
                  insert_workout (the caller) date
                    (Some (case name of None \<Rightarrow> ''Untitled Workout''
                           | Some n \<Rightarrow> if n = [] then ''Untitled Workout'' else n))
                    None None d
            in (Inr newWorkout, d')))"

section \<open>The server actions and their schemas\<close>

text \<open>
  A number that reaches a schema: an integer, a number that is not an integer (a
  fraction or an infinity) or NaN.
\<close>

datatype jsnumber = Integer int | NonInteger | NotANumber

text \<open>
  The message of a validation issue: the text the schema gives, or the library's default
  text for the kind of issue.
\<close>

datatype issue_kind = too_small | too_big | not_integer | invalid_type

datatype message = Text string | Default issue_kind

text \<open>\<^verbatim>\<open>z.string().min(1, msg).max(n)\<close>: every failing check adds its issue.\<close>

definition string_min1_max :: "string \<Rightarrow> nat \<Rightarrow> string \<Rightarrow> message list" where
  "string_min1_max msg n s =
     (if length s < 1 then [Text msg] else []) @ (if length s > n then [Default too_big] else [])"

definition string_min1 :: "string \<Rightarrow> string \<Rightarrow> message list" where
  "string_min1 msg s = (if length s < 1 then [Text msg] else [])"

definition optional_string_max :: "nat \<Rightarrow> string option \<Rightarrow> message list" where
  "optional_string_max n s =
     (case s of None \<Rightarrow> [] | Some t \<Rightarrow> if length t > n then [Default too_big] else [])"

text \<open>\<^verbatim>\<open>z.number().int().positive()\<close>.\<close>

definition int_positive :: "jsnumber \<Rightarrow> message list" where
  "int_positive x =
     (case x of
        NotANumber \<Rightarrow> [Default invalid_type]
      | NonInteger \<Rightarrow> [Default not_integer]
      | Integer i \<Rightarrow> if i \<le> 0 then [Default too_small] else [])"

definition optional_int_positive :: "jsnumber option \<Rightarrow> message list" where
  "optional_int_positive x = (case x of None \<Rightarrow> [] | Some n \<Rightarrow> int_positive n)"

text \<open>The integer a validated number is.\<close>

definition int_of :: "jsnumber \<Rightarrow> int" where
  "int_of x = (case x of Integer i \<Rightarrow> i | _ \<Rightarrow> 0)"

text \<open>What an action returns: \<^verbatim>\<open>{ success: true, data }\<close> or \<^verbatim>\<open>{ success: false, error }\<close>.\<close>

datatype 'a action_result = Success 'a | Failure message

subsection \<open>app/dashboard/workout/new/actions.ts\<close>

record create_input =
  ci_name :: string
  ci_date :: string
  ci_durationMinutes :: "jsnumber option"
  ci_notes :: "string option"

text \<open>The issues of \<^verbatim>\<open>createWorkoutSchema.parse(input)\<close>, in the order of the keys.\<close>

definition createWorkoutSchema :: "create_input \<Rightarrow> message list" where
  "createWorkoutSchema input =
     string_min1_max ''Workout name is required'' 100 (ci_name input) @
     string_min1 ''Date is required'' (ci_date input) @
     optional_int_positive (ci_durationMinutes input) @
     optional_string_max 1000 (ci_notes input)"

definition createWorkoutAction ::
  "string option \<Rightarrow> create_input \<Rightarrow> db \<Rightarrow> workout_row action_result \<times> db" where
  "createWorkoutAction caller input d =
     (case createWorkoutSchema input of
        issue # _ \<Rightarrow> (Failure issue, d)
      | [] \<Rightarrow>
          (case createWorkout caller
                  \<lparr>cd_name = ci_name input, cd_date = newDateFromString (ci_date input),
                   cd_durationMinutes = map_option int_of (ci_durationMinutes input),
                   cd_notes = ci_notes input\<rparr> d of
             (Inl e, d') \<Rightarrow> (Failure (Text ''Failed to create workout''), d')
           | (Inr workout, d') \<Rightarrow> (Success workout, d')))"

subsection \<open>app/dashboard/workout/[workoutId]/actions.ts\<close>

record update_input =
  ui_id :: jsnumber
  ui_name :: string
  ui_date :: string
  ui_durationMinutes :: "jsnumber option"
  ui_notes :: "string option"

definition updateWorkoutSchema :: "update_input \<Rightarrow> message list" where
  "updateWorkoutSchema input =
     int_positive (ui_id input) @
     string_min1_max ''Workout name is required'' 100 (ui_name input) @
     string_min1 ''Date is required'' (ui_date input) @
     optional_int_positive (ui_durationMinutes input) @
     optional_string_max 1000 (ui_notes input)"

definition updateWorkoutAction ::
  "string option \<Rightarrow> update_input \<Rightarrow> db \<Rightarrow> workout_row action_result \<times> db" where
  "updateWorkoutAction caller input d =
     (case updateWorkoutSchema input of
        issue # _ \<Rightarrow> (Failure issue, d)
      | [] \<Rightarrow>
          (case updateWorkout caller (int_of (ui_id input))
                  \<lparr>ud_name = Some (ui_name input),
                   ud_date = Some (newDateFromString (ui_date input)),
                   ud_durationMinutes = map_option int_of (ui_durationMinutes input),
                   ud_notes = ui_notes input\<rparr> d of
             (Inl e, d') \<Rightarrow> (Failure (Text ''Failed to update workout''), d')
           | (Inr None, d') \<Rightarrow> (Failure (Text ''Workout not found or unauthorized''), d')
           | (Inr (Some workout), d') \<Rightarrow> (Success workout, d')))"

record delete_input =
  di_id :: jsnumber

definition deleteWorkoutSchema :: "delete_input \<Rightarrow> message list" where
  "deleteWorkoutSchema input = int_positive (di_id input)"

definition deleteWorkoutAction ::
  "string option \<Rightarrow> delete_input \<Rightarrow> db \<Rightarrow> workout_row action_result \<times> db" where
  "deleteWorkoutAction caller input d =
     (case deleteWorkoutSchema input of
        issue # _ \<Rightarrow> (Failure issue, d)
      | [] \<Rightarrow>
          (case deleteWorkout caller (int_of (di_id input)) d of
             (Inl e, d') \<Rightarrow> (Failure (Text ''Failed to delete workout''), d')
           | (Inr None, d') \<Rightarrow> (Failure (Text ''Workout not found or unauthorized''), d')
           | (Inr (Some deleted), d') \<Rightarrow> (Success deleted, d')))"

section \<open>Example data\<close>

text \<open>
  A database with nothing in it, and one with three workouts on 1 September 2025: two
  of user \<open>u1\<close>, created at times 10 and 20, and one of user \<open>u2\<close>. The first has
  two exercises, one with three sets stored out of order and one with no set.
\<close>

definition empty_db :: db where
  "empty_db = \<lparr>workouts = [], exercises = [], workoutExercises = [], sets = [],
                workouts_id_seq = 0, now = 0, statements = []\<rparr>"

definition workout1 :: workout_row where
  "workout1 = \<lparr>w_id = 1, w_userId = ''u1'', w_date = ''2025-09-01'', w_name = Some ''Legs'',
               w_durationMinutes = Some 60, w_notes = None, w_createdAt = 10, w_updatedAt = 10\<rparr>"

definition workout2 :: workout_row where
  "workout2 = \<lparr>w_id = 2, w_userId = ''u1'', w_date = ''2025-09-01'', w_name = Some ''Run'',
               w_durationMinutes = None, w_notes = None, w_createdAt = 20, w_updatedAt = 20\<rparr>"

definition workout3 :: workout_row where
  "workout3 = \<lparr>w_id = 3, w_userId = ''u2'', w_date = ''2025-09-01'', w_name = Some ''Swim'',
               w_durationMinutes = None, w_notes = None, w_createdAt = 30, w_updatedAt = 30\<rparr>"

definition squat :: exercise_row where
  "squat = \<lparr>e_id = 7, e_name = ''Squat'', e_description = None\<rparr>"

definition lunge :: exercise_row where
  "lunge = \<lparr>e_id = 8, e_name = ''Lunge'', e_description = None\<rparr>"

definition squats_of_workout1 :: workout_exercise_row where
  "squats_of_workout1 =
     \<lparr>we_id = 100, we_workoutId = 1, we_exerciseId = 7, we_order = 1, we_notes = None\<rparr>"

definition lunges_of_workout1 :: workout_exercise_row where
  "lunges_of_workout1 =
     \<lparr>we_id = 101, we_workoutId = 1, we_exerciseId = 8, we_order = 2, we_notes = None\<rparr>"

definition squat_set :: "int \<Rightarrow> int \<Rightarrow> set_row" where
  "squat_set i n =
     \<lparr>s_id = i, s_workoutExerciseId = 100, s_setNumber = n, s_isBodyweight = False,
      s_weight = Some ''100.00'', s_reps = 5, s_rpe = None, s_notes = None\<rparr>"

definition example_db :: db where
  "example_db =
     \<lparr>workouts = [workout1, workout2, workout3], exercises = [squat, lunge],
      workoutExercises = [squats_of_workout1, lunges_of_workout1],
      sets = [squat_set 1 3, squat_set 2 1, squat_set 3 2],
      workouts_id_seq = 3, now = 50, statements = []\<rparr>"

text \<open>An update of workout \<open>i\<close> as the edit form submits it.\<close>

definition rename_input :: "int \<Rightarrow> update_input" where
  "rename_input i =
     \<lparr>ui_id = Integer i, ui_name = ''Renamed'', ui_date = ''2025-09-02'',
      ui_durationMinutes = None, ui_notes = None\<rparr>"

text \<open>The joined rows of the first workout: three rows of squats and one of lunges.\<close>

definition example_items :: "joined_row list" where
  "example_items = fst (select_workout_exercises 1 example_db)"

text \<open>
  The example database after user \<open>u2\<close> has renamed a workout, logged another one on
  the same day and added an exercise with a set to it. Nothing of \<open>u1\<close> has changed.
\<close>

definition other_db :: db where
  "other_db =
     example_db
       \<lparr>workouts :=
          [workout1, workout3\<lparr>w_name := Some ''Laps''\<rparr>, workout2,
           workout3\<lparr>w_id := 4, w_createdAt := 40, w_updatedAt := 40\<rparr>],
        workoutExercises :=
          [squats_of_workout1, lunges_of_workout1,
           \<lparr>we_id = 102, we_workoutId = 4, we_exerciseId = 7, we_order = 1, we_notes = None\<rparr>],
        sets :=
          [squat_set 1 3, squat_set 2 1, squat_set 3 2,
           (squat_set 4 1)\<lparr>s_workoutExerciseId := 102\<rparr>],
        workouts_id_seq := 4\<rparr>"

text \<open>
  A database of user \<open>u1\<close> alone: two workouts logged for 15 September 2025, then
  one for 31 August and one for 1 September.
\<close>

definition logged :: "int \<Rightarrow> string \<Rightarrow> workout_row" where
  "logged i date =
     \<lparr>w_id = i, w_userId = ''u1'', w_date = date, w_name = None, w_durationMinutes = None,
      w_notes = None, w_createdAt = i, w_updatedAt = i\<rparr>"

definition september_db :: db where
  "september_db =
     empty_db\<lparr>workouts := [logged 1 ''2025-09-15'', logged 2 ''2025-09-15'',
                            logged 3 ''2025-08-31'', logged 4 ''2025-09-01''],
               workouts_id_seq := 4\<rparr>"

text \<open>A name of 101 characters.\<close>

definition long_name :: string where
  "long_name = replicate 101 CHR ''a''"

section \<open>Notions used in the statements\<close>

text \<open>The row an update or delete of \<open>workoutId\<close> by \<open>userId\<close> is aimed at.\<close>

definition is_target :: "string \<Rightarrow> int \<Rightarrow> workout_row \<Rightarrow> bool" where
  "is_target userId workoutId r = (w_id r = workoutId \<and> w_userId r = userId)"

text \<open>
  No row is the target: the id does not exist, or it is the id of another user's
  workout.
\<close>

definition no_target :: "string \<Rightarrow> int \<Rightarrow> db \<Rightarrow> bool" where
  "no_target userId workoutId d = list_all (\<lambda>r. \<not> is_target userId workoutId r) (workouts d)"

definition same_tables :: "db \<Rightarrow> db \<Rightarrow> bool" where
  "same_tables d d' =
     (workouts d = workouts d' \<and> exercises d = exercises d' \<and>
      workoutExercises d = workoutExercises d' \<and> sets d = sets d')"

text \<open>
  The rows a user owns: the user's workouts, the exercises of those workouts and the
  sets of those exercises.
\<close>

definition owned_workouts :: "string \<Rightarrow> db \<Rightarrow> workout_row list" where
  "owned_workouts u d = filter (\<lambda>w. w_userId w = u) (workouts d)"

definition owned_workoutExercises :: "string \<Rightarrow> db \<Rightarrow> workout_exercise_row list" where
  "owned_workoutExercises u d =
     filter (\<lambda>we. we_workoutId we \<in> set (map w_id (owned_workouts u d))) (workoutExercises d)"

definition owned_sets :: "string \<Rightarrow> db \<Rightarrow> set_row list" where
  "owned_sets u d =
     filter (\<lambda>s. s_workoutExerciseId s \<in> set (map we_id (owned_workoutExercises u d))) (sets d)"

text \<open>
  Two databases that hold the same rows of user \<open>u\<close> and the same exercise catalogue;
  they may differ in everything other users own.
\<close>

definition same_for :: "string \<Rightarrow> db \<Rightarrow> db \<Rightarrow> bool" where
  "same_for u d d' =
     (owned_workouts u d = owned_workouts u d' \<and>
      owned_workoutExercises u d = owned_workoutExercises u d' \<and>
      owned_sets u d = owned_sets u d' \<and> exercises d = exercises d')"

text \<open>A statement whose \<^verbatim>\<open>where\<close> clause has the condition \<^verbatim>\<open>userId = u\<close>.\<close>

fun has_ownership_predicate :: "string \<Rightarrow> statement \<Rightarrow> bool" where
  "has_ownership_predicate u (SelectWorkouts cs) = (UserIdEq u \<in> set cs)"
| "has_ownership_predicate u (SelectDistinctWorkoutDates cs) = (UserIdEq u \<in> set cs)"
| "has_ownership_predicate u (UpdateWorkouts cs) = (UserIdEq u \<in> set cs)"
| "has_ownership_predicate u (DeleteWorkouts cs) = (UserIdEq u \<in> set cs)"
| "has_ownership_predicate u InsertWorkout = False"
| "has_ownership_predicate u (SelectWorkoutExercises cs) = False"

text \<open>The key under which a joined row is grouped, and the sets joined to a key.\<close>

definition exerciseId_of :: "joined_row \<Rightarrow> int" where
  "exerciseId_of item = we_exerciseId (workoutExercise item)"

definition joined_sets :: "int \<Rightarrow> joined_row list \<Rightarrow> set_row list" where
  "joined_sets k items =
     concat (map (\<lambda>item. case set_of item of None \<Rightarrow> [] | Some s \<Rightarrow> [s])
               (filter (\<lambda>item. exerciseId_of item = k) items))"

text \<open>
  The outcome of an update that finds no row, as a function of the caller and the data
  alone.
\<close>

definition update_outcome :: "string \<Rightarrow> update_data \<Rightarrow> error + workout_row option" where
  "update_outcome u data =
     (if u = [] then Inl Unauthorized
      else (case ud_date data of
              Some date \<Rightarrow> (case iso_date_part date of Inl e \<Rightarrow> Inl e | Inr s \<Rightarrow> Inr None)
            | None \<Rightarrow>
                if ud_name data = None \<and> ud_durationMinutes data = None \<and> ud_notes data = None
                then Inl NoValuesToSet else Inr None))"

text \<open>What the update action returns when no row is the target.\<close>

definition update_action_outcome :: "string \<Rightarrow> update_input \<Rightarrow> workout_row action_result" where
  "update_action_outcome u input =
     (case updateWorkoutSchema input of
        issue # _ \<Rightarrow> Failure issue
      | [] \<Rightarrow>
         (case update_outcome u
                 \<lparr>ud_name = Some (ui_name input),
                  ud_date = Some (newDateFromString (ui_date input)),
                  ud_durationMinutes = map_option int_of (ui_durationMinutes input),
                  ud_notes = ui_notes input\<rparr> of
            Inl e \<Rightarrow> Failure (Text ''Failed to update workout'')
          | Inr None \<Rightarrow> Failure (Text ''Workout not found or unauthorized'')
          | Inr (Some workout) \<Rightarrow> Success workout))"


text \<open>The workouts of user \<open>u\<close> on the date text \<open>s\<close>, latest first.\<close>

definition workouts_on :: "string \<Rightarrow> string \<Rightarrow> db \<Rightarrow> workout_row list" where
  "workouts_on u s d =
     order_by_createdAt_desc (filter (\<lambda>w. w_userId w = u \<and> w_date w = s) (workouts d))"

text \<open>
  The grouping as the specification words it: one entry for each \<open>exerciseId\<close>, in
  the order in which the ids first occur; the entry takes the exercise of the first row
  with that id, and its sets are the sets joined to the rows with that id, sorted by
  \<open>setNumber\<close>. (An id in \<open>exercise_keys\<close> has a row, so \<open>hd\<close> is of a non-empty
  list.)
\<close>

definition exercise_keys :: "joined_row list \<Rightarrow> int list" where
  "exercise_keys items = rev (remdups (rev (map exerciseId_of items)))"

definition entry_for :: "int \<Rightarrow> joined_row list \<Rightarrow> exercise_view" where
  "entry_for k items =
     (let first = hd (filter (\<lambda>item. exerciseId_of item = k) items)
      in \<lparr>ev_id = e_id (exercise first), ev_name = e_name (exercise first),
          ev_sets = sort_key setNumber (map set_view_of (joined_sets k items))\<rparr>)"

definition grouped :: "joined_row list \<Rightarrow> exercise_view list" where
  "grouped items = map (\<lambda>k. entry_for k items) (exercise_keys items)"

text \<open>The view of a workout with its exercises grouped in that way.\<close>

definition grouped_view :: "db \<Rightarrow> workout_row \<Rightarrow> workout_view" where
  "grouped_view d w =
     \<lparr>wv_id = w_id w, wv_name = w_name w, wv_date = newDateFromString (w_date w),
      wv_durationMinutes = w_durationMinutes w, wv_notes = w_notes w,
      wv_exercises = grouped (fst (select_workout_exercises (w_id w) d))\<rparr>"
chapter \<open>Properties\<close>

section \<open>The calendar functions\<close>

lemma div_lower:
  fixes a k :: int
  assumes "0 < k"
  shows "a - k + 1 \<le> k * (a div k)"
proof -
  have "k * (a div k) + a mod k = a" by simp
  moreover have "a mod k < k" using assms by simp
  ultimately show ?thesis by linarith
qed

lemma div_upper:
  fixes a k :: int
  assumes "0 < k"
  shows "k * (a div k) \<le> a"
proof -
  have "k * (a div k) + a mod k = a" by simp
  moreover have "0 \<le> a mod k" using assms by simp
  ultimately show ?thesis by linarith
qed

lemma DayFromYear_lower: "146097 * y - 287811596 \<le> 400 * DayFromYear y"
proof -
  define q4 where "q4 = (y - 1969) div 4"
  define q100 where "q100 = (y - 1901) div 100"
  define q400 where "q400 = (y - 1601) div 400"
  have a: "y - 1972 \<le> 4 * q4"
    using div_lower [of 4 "y - 1969"] by (simp add: q4_def)
  have b: "100 * q100 \<le> y - 1901"
    using div_upper [of 100 "y - 1901"] by (simp add: q100_def)
  have c: "y - 2000 \<le> 400 * q400"
    using div_lower [of 400 "y - 1601"] by (simp add: q400_def)
  have "DayFromYear y = 365 * y - 719050 + q4 - q100 + q400"
    by (simp add: DayFromYear_def q4_def q100_def q400_def)
  then show ?thesis using a b c by linarith
qed

lemma DayFromYear_upper: "400 * DayFromYear y \<le> 146097 * y - 287810501"
proof -
  define q4 where "q4 = (y - 1969) div 4"
  define q100 where "q100 = (y - 1901) div 100"
  define q400 where "q400 = (y - 1601) div 400"
  have a: "4 * q4 \<le> y - 1969"
    using div_upper [of 4 "y - 1969"] by (simp add: q4_def)
  have b: "y - 2000 \<le> 100 * q100"
    using div_lower [of 100 "y - 1901"] by (simp add: q100_def)
  have c: "400 * q400 \<le> y - 1601"
    using div_upper [of 400 "y - 1601"] by (simp add: q400_def)
  have "DayFromYear y = 365 * y - 719050 + q4 - q100 + q400"
    by (simp add: DayFromYear_def q4_def q100_def q400_def)
  then show ?thesis using a b c by linarith
qed

text \<open>
  \<open>YearFromDay d\<close> is the year that contains day \<open>d\<close>: its first day is not after
  \<open>d\<close> and the first day of the next year is.
\<close>

lemma YearFromDay_bounds:
  "DayFromYear (YearFromDay d) \<le> d \<and> d < DayFromYear (YearFromDay d + 1)"
proof -
  define g where "g = (400 * d + 506) div 146097"
  have g1: "146097 * g \<le> 400 * d + 506"
    using div_upper [of 146097 "400 * d + 506"] by (simp add: g_def)
  have g2: "400 * d - 145590 \<le> 146097 * g"
    using div_lower [of 146097 "400 * d + 506"] by (simp add: g_def)
  define hi where "hi = DayFromYear (1971 + g)"
  define lo where "lo = DayFromYear (1969 + g)"
  have "146097 * g + 145591 \<le> 400 * hi"
    using DayFromYear_lower [of "1971 + g"] by (simp add: hi_def algebra_simps)
  then have up: "d < hi" using g2 by linarith
  have "400 * lo \<le> 146097 * g - 145508"
    using DayFromYear_upper [of "1969 + g"] by (simp add: lo_def algebra_simps)
  then have low: "lo \<le> d" using g1 by linarith
  show ?thesis
  proof (cases "DayFromYear (1970 + g) \<le> d")
    case True
    then have "YearFromDay d = 1970 + g" by (simp add: YearFromDay_def g_def Let_def)
    with True up show ?thesis by (simp add: hi_def add.commute)
  next
    case False
    then have "YearFromDay d = 1969 + g" by (simp add: YearFromDay_def g_def Let_def)
    with False low show ?thesis by (simp add: lo_def)
  qed
qed

lemma div_step:
  fixes a k :: int
  assumes "1 < k"
  shows "(a + 1) div k = a div k + (if (a + 1) mod k = 0 then 1 else 0)"
proof -
  define q r where "q = a div k" and "r = a mod k"
  have e1: "a = q * k + r" by (simp add: q_def r_def)
  have b1: "0 \<le> r" "r < k" using assms by (simp_all add: r_def)
  show ?thesis
  proof (cases "r + 1 = k")
    case True
    then have "a + 1 = (q + 1) * k" using e1 by (simp add: algebra_simps)
    then have "(a + 1) div k = q + 1" "(a + 1) mod k = 0"
      using assms by simp_all
    then show ?thesis by (simp add: q_def)
  next
    case False
    then have lt: "r + 1 < k" using b1 by linarith
    have e2: "a + 1 = (r + 1) + q * k" using e1 by linarith
    have "(a + 1) div k = q"
      unfolding e2 using lt b1 by (simp add: div_pos_pos_trivial)
    moreover have "(a + 1) mod k = r + 1"
      unfolding e2 using lt b1 by (simp add: mod_pos_pos_trivial)
    ultimately show ?thesis using b1 by (simp add: q_def)
  qed
qed

lemma leap_divides:
  fixes y :: int
  shows "y mod 100 = 0 \<Longrightarrow> y mod 4 = 0" and "y mod 400 = 0 \<Longrightarrow> y mod 100 = 0"
proof -
  have a: "(4::int) dvd 100" and b: "(100::int) dvd 400" by simp_all
  show "y mod 100 = 0 \<Longrightarrow> y mod 4 = 0"
    using dvd_trans [OF a, of y] by (simp add: mod_eq_0_iff_dvd)
  show "y mod 400 = 0 \<Longrightarrow> y mod 100 = 0"
    using dvd_trans [OF b, of y] by (simp add: mod_eq_0_iff_dvd)
qed

lemma div4_step:
  "((y::int) - 1968) div 4 = (y - 1969) div 4 + (if y mod 4 = 0 then 1 else 0)"
proof -
  have "(y - 1968) mod 4 = y mod 4" using mod_mult_self1 [of y "- 492" 4] by simp
  then show ?thesis using div_step [of 4 "y - 1969"] by simp
qed

lemma div100_step:
  "((y::int) - 1900) div 100 = (y - 1901) div 100 + (if y mod 100 = 0 then 1 else 0)"
proof -
  have "(y - 1900) mod 100 = y mod 100" using mod_mult_self1 [of y "- 19" 100] by simp
  then show ?thesis using div_step [of 100 "y - 1901"] by simp
qed

lemma div400_step:
  "((y::int) - 1600) div 400 = (y - 1601) div 400 + (if y mod 400 = 0 then 1 else 0)"
proof -
  have "(y - 1600) mod 400 = y mod 400" using mod_mult_self1 [of y "- 4" 400] by simp
  then show ?thesis using div_step [of 400 "y - 1601"] by simp
qed

lemma DaysInYear_cases:
  "DaysInYear y = 365 + (if y mod 4 = 0 then 1 else 0) - (if y mod 100 = 0 then 1 else 0)
     + (if y mod 400 = 0 then 1 else 0)"
proof (cases "y mod 400 = 0")
  case True
  have c: "y mod 100 = 0" by (rule leap_divides(2) [OF True])
  have "y mod 4 = 0" by (rule leap_divides(1) [OF c])
  with True c show ?thesis by (simp only: DaysInYear_def InLeapYear_def if_True) simp
next
  case n400: False
  show ?thesis
  proof (cases "y mod 100 = 0")
    case True
    have "y mod 4 = 0" by (rule leap_divides(1) [OF True])
    with True n400 show ?thesis
      by (simp only: DaysInYear_def InLeapYear_def if_True if_False) simp
  next
    case False
    with n400 show ?thesis
      by (cases "y mod 4 = 0")
        (simp_all only: DaysInYear_def InLeapYear_def if_True if_False, simp_all)
  qed
qed

lemma DayFromYear_step: "DayFromYear (y + 1) = DayFromYear y + DaysInYear y"
proof -
  define q4 q100 q400 where "q4 = (y - 1969) div 4" and "q100 = (y - 1901) div 100"
    and "q400 = (y - 1601) div 400"
  define c4 c100 c400 :: int where "c4 = (if y mod 4 = 0 then 1 else 0)"
    and "c100 = (if y mod 100 = 0 then 1 else 0)" and "c400 = (if y mod 400 = 0 then 1 else 0)"
  have t4: "(y - 1968) div 4 = q4 + c4" by (simp only: div4_step q4_def c4_def)
  have t100: "(y - 1900) div 100 = q100 + c100" by (simp only: div100_step q100_def c100_def)
  have t400: "(y - 1600) div 400 = q400 + c400" by (simp only: div400_step q400_def c400_def)
  have "DayFromYear (y + 1) =
      365 * (y - 1969) + (y - 1968) div 4 - (y - 1900) div 100 + (y - 1600) div 400"
    by (simp add: DayFromYear_def)
  then have l: "DayFromYear (y + 1) = 365 * y - 718685 + (q4 + c4) - (q100 + c100) + (q400 + c400)"
    by (simp only: t4 t100 t400) (simp add: algebra_simps)
  have r: "DayFromYear y = 365 * y - 719050 + q4 - q100 + q400"
    by (simp add: DayFromYear_def q4_def q100_def q400_def)
  have d: "DaysInYear y = 365 + c4 - c100 + c400"
    by (simp only: DaysInYear_cases c4_def c100_def c400_def)
  show ?thesis using l r d by linarith
qed

lemma DayWithinYear_bounds:
  "0 \<le> DayWithinYear d \<and> DayWithinYear d < DaysInYear (YearFromDay d)"
  using YearFromDay_bounds [of d] DayFromYear_step [of "YearFromDay d"]
  unfolding DayWithinYear_def by linarith

lemma MonthFromDay_range: "0 \<le> MonthFromDay d \<and> MonthFromDay d \<le> 11"
  by (simp add: MonthFromDay_def Let_def)

lemma DateFromDay_range: "1 \<le> DateFromDay d \<and> DateFromDay d \<le> 31"
proof -
  define w where "w = DayWithinYear d"
  define l :: int where "l = (if InLeapYear (YearFromDay d) then 1 else 0)"
  have w: "0 \<le> w" "w < 365 + l"
    using DayWithinYear_bounds [of d]
    by (auto simp: w_def l_def DaysInYear_def split: if_splits)
  have l: "l = 0 \<or> l = 1" by (simp add: l_def)
  have dbm: "DaysBeforeMonth (InLeapYear (YearFromDay d)) m =
     (if m = 0 then 0 else if m = 1 then 31 else if m = 2 then 59 + l
      else if m = 3 then 90 + l else if m = 4 then 120 + l else if m = 5 then 151 + l
      else if m = 6 then 181 + l else if m = 7 then 212 + l else if m = 8 then 243 + l
      else if m = 9 then 273 + l else if m = 10 then 304 + l else if m = 11 then 334 + l
      else 365 + l)" for m
    by (simp add: DaysBeforeMonth_def l_def Let_def)
  show ?thesis
    unfolding DateFromDay_def MonthFromDay_def Let_def w_def [symmetric] dbm
    using w l by auto
qed

text \<open>The fields read from a day number make that day again.\<close>

lemma MakeDay_inverse: "MakeDay (YearFromDay d) (MonthFromDay d) (DateFromDay d) = d"
proof -
  have "MonthFromDay d div 12 = 0" "MonthFromDay d mod 12 = MonthFromDay d"
    using MonthFromDay_range [of d] by simp_all
  then show ?thesis
    by (simp add: MakeDay_def Let_def DateFromDay_def DayWithinYear_def)
qed

section \<open>Strings and numbers\<close>

lemma digit_val_digit_char: "digit_val (digit_char n) = Some (n mod 10)"
proof -
  have "\<forall>k<10. digit_val (''0123456789'' ! k) = Some k"
    by (simp add: digit_val_def All_less_Suc numeral_eq_Suc)
  then show ?thesis by (simp add: digit_char_def)
qed

lemma digit_char_in: "digit_char n \<in> set ''0123456789''"
proof -
  have "n mod 10 < length ''0123456789''" by simp
  then show ?thesis unfolding digit_char_def by (rule nth_mem)
qed

lemma digits_of_set: "set (digits_of n) \<subseteq> set ''0123456789''"
proof (induction n rule: digits_of.induct)
  case (1 n)
  show ?case
  proof (cases "n < 10")
    case True
    then show ?thesis using digit_char_in [of n] by (subst digits_of.simps) simp
  next
    case False
    then show ?thesis using 1 digit_char_in [of n] by (subst digits_of.simps) simp
  qed
qed

lemma digits_of_nonempty: "digits_of n \<noteq> []"
  by (subst digits_of.simps) simp

lemma parse_digits_snoc:
  "parse_digits acc (xs @ [c]) =
     (case parse_digits acc xs of None \<Rightarrow> None
      | Some v \<Rightarrow> (case digit_val c of None \<Rightarrow> None | Some k \<Rightarrow> Some (10 * v + k)))"
  by (induction xs arbitrary: acc) (auto split: option.splits)

lemma parse_digits_of: "parse_digits 0 (digits_of n) = Some n"
proof (induction n rule: digits_of.induct)
  case (1 n)
  show ?case
  proof (cases "n < 10")
    case True
    then show ?thesis by (subst digits_of.simps) (simp add: digit_val_digit_char)
  next
    case False
    then show ?thesis using 1
      by (subst digits_of.simps) (simp add: parse_digits_snoc digit_val_digit_char)
  qed
qed

lemma Number_digits:
  assumes "set s \<subseteq> set ''0123456789''" "s \<noteq> []"
  shows "Number s = map_option int (parse_digits 0 s)"
proof -
  obtain c cs where s: "s = c # cs" using assms(2) by (cases s) auto
  then have "c \<in> set ''0123456789''" using assms(1) by auto
  then have "c \<noteq> CHR ''-''" "c \<noteq> CHR ''+''" by auto
  then show ?thesis by (simp add: Number_def s)
qed

lemma Number_String: "0 \<le> i \<Longrightarrow> Number (String (Some i)) = Some i"
  using Number_digits [OF digits_of_set digits_of_nonempty, of "nat i"]
  by (simp add: String_def parse_digits_of)

lemma parse_digits_zero: "parse_digits 0 (CHR ''0'' # s) = parse_digits 0 s"
  by (simp add: digit_val_def)

lemma Number_padStart:
  assumes "0 \<le> i"
  shows "Number (padStart 2 CHR ''0'' (String (Some i))) = Some i"
proof -
  let ?s = "digits_of (nat i)"
  have s: "String (Some i) = ?s" using assms by (simp add: String_def)
  have ne: "?s \<noteq> []" by (rule digits_of_nonempty)
  then have "0 < length ?s" by simp
  then have "length ?s = 1 \<or> 2 \<le> length ?s" by linarith
  then show ?thesis
  proof
    assume "length ?s = 1"
    then have p: "padStart 2 CHR ''0'' ?s = CHR ''0'' # ?s" by (simp add: padStart_def)
    have "set (CHR ''0'' # ?s) \<subseteq> set ''0123456789''" using digits_of_set [of "nat i"] by simp
    then have "Number (CHR ''0'' # ?s) = map_option int (parse_digits 0 (CHR ''0'' # ?s))"
      by (rule Number_digits) simp
    then show ?thesis using assms by (simp only: s p parse_digits_zero parse_digits_of) simp
  next
    assume "2 \<le> length ?s"
    then have "padStart 2 CHR ''0'' ?s = ?s" by (simp add: padStart_def)
    then show ?thesis using Number_String [OF assms] by (simp add: s)
  qed
qed

lemma split_not_Nil: "split c s \<noteq> []"
  by (induction s) (auto split: list.splits)

lemma split_no_sep: "c \<notin> set s \<Longrightarrow> split c s = [s]"
  by (induction s) auto

lemma split_append: "c \<notin> set a \<Longrightarrow> split c (a @ c # rest) = a # split c rest"
  by (induction a) auto

lemma padStart_set: "set (padStart n c s) \<subseteq> insert c (set s)"
  by (auto simp: padStart_def)

section \<open>Formatting and parsing dates\<close>

lemma String_nonneg: "0 \<le> i \<Longrightarrow> String (Some i) = digits_of (nat i)"
  by (simp add: String_def)

lemma dash_not_digit: "CHR ''-'' \<notin> set (digits_of n)"
  using digits_of_set [of n] by auto

lemma dash_not_padded: "CHR ''-'' \<notin> set (padStart 2 CHR ''0'' (digits_of n))"
  using padStart_set [of 2 "CHR ''0''" "digits_of n"] digits_of_set [of n] by auto

lemma split_date_string:
  assumes "CHR ''-'' \<notin> set a" "CHR ''-'' \<notin> set b" "CHR ''-'' \<notin> set c"
  shows "split CHR ''-'' (a @ ''-'' @ b @ ''-'' @ c) = [a, b, c]"
  using assms by (simp add: split_append split_no_sep)

lemma parse_format_fields:
  assumes y: "0 \<le> y" and m: "0 \<le> m" and dt: "0 \<le> dt"
  shows "map Number (split CHR ''-''
           (String (Some y) @ ''-'' @ padStart 2 CHR ''0'' (String (Some (m + 1))) @ ''-'' @
            padStart 2 CHR ''0'' (String (Some dt)))) = [Some y, Some (m + 1), Some dt]"
proof -
  have m1: "0 \<le> m + 1" using m by simp
  have "split CHR ''-''
           (String (Some y) @ ''-'' @ padStart 2 CHR ''0'' (String (Some (m + 1))) @ ''-'' @
            padStart 2 CHR ''0'' (String (Some dt))) =
        [String (Some y), padStart 2 CHR ''0'' (String (Some (m + 1))),
         padStart 2 CHR ''0'' (String (Some dt))]"
    unfolding String_nonneg [OF y] String_nonneg [OF m1] String_nonneg [OF dt]
    by (rule split_date_string) (rule dash_not_digit dash_not_padded)+
  then show ?thesis
    by (simp only: list.map Number_String [OF y] Number_padStart [OF m1] Number_padStart [OF dt])
qed

lemma Day_local_midnight: "Day (LocalTime tza (UTC tza (MakeDate d 0))) = d"
  by (simp add: Day_def LocalTime_def UTC_def MakeDate_def msPerDay_def)

lemma local_midnight_in_range:
  assumes valid: "TimeClip t = Some t" and tz: "\<bar>tza\<bar> \<le> msPerDay"
    and y: "100 \<le> YearFromDay (Day (LocalTime tza t))"
  shows "TimeClip (UTC tza (MakeDate (Day (LocalTime tza t)) 0)) =
           Some (Day (LocalTime tza t) * msPerDay - tza)"
proof -
  define d where "d = Day (LocalTime tza t)"
  define f where "f = DayFromYear (YearFromDay d)"
  have t: "t \<le> 8640000000000000"
    using valid by (simp add: TimeClip_def split: if_splits)
  have "msPerDay * ((t + tza) div msPerDay) \<le> t + tza"
    by (rule div_upper) (simp add: msPerDay_def)
  then have up: "86400000 * d \<le> t + tza"
    by (simp add: d_def Day_def LocalTime_def msPerDay_def)
  have "146097 * YearFromDay d - 287811596 \<le> 400 * f"
    unfolding f_def by (rule DayFromYear_lower)
  then have "- 683005 \<le> f" using y by (simp add: d_def [symmetric])
  moreover have "f \<le> d" using YearFromDay_bounds [of d] by (simp add: f_def)
  ultimately have low: "- 683005 \<le> d" by linarith
  have tz': "- 86400000 \<le> tza" "tza \<le> 86400000" using tz by (simp_all add: msPerDay_def abs_le_iff)
  have "\<bar>86400000 * d - tza\<bar> \<le> 8640000000000000"
    using up low t tz' by linarith
  then show ?thesis
    by (simp add: TimeClip_def UTC_def MakeDate_def msPerDay_def d_def [symmetric] mult.commute)
qed

lemmas calendar_eval =
  Day_def LocalTime_def UTC_def MakeDate_def MakeDay_def TimeClip_def msPerDay_def
  YearFromDay_def DayFromYear_def MonthFromDay_def DateFromDay_def DayWithinYear_def
  InLeapYear_def DaysBeforeMonth_def Let_def

lemmas string_eval =
  String_def digits_of.simps digit_char_def padStart_def Number_def digit_val_def element_def

lemmas date_eval =
  getFullYear_def getMonth_def getDate_def newDate_def formatDateForDb_def parseDateFromDb_def

lemma fields_0050_03_04:
  "YearFromDay (- 701203) = 50" "MonthFromDay (- 701203) = 2" "DateFromDay (- 701203) = 4"
  by (simp_all add: calendar_eval)

lemma format_0050_03_04: "formatDateForDb 0 (Some (- 60583939200000)) = ''50-03-04''"
proof -
  have "Day (LocalTime 0 (- 60583939200000)) = - 701203" by (simp add: calendar_eval)
  then show ?thesis by (simp add: date_eval fields_0050_03_04 string_eval)
qed

lemma parse_50_03_04: "parseDateFromDb 0 ''50-03-04'' = Some (- 625795200000)"
  by (simp add: date_eval string_eval calendar_eval)

lemma year_of_parsed_50: "getFullYear 0 (Some (- 625795200000)) = Some 1950"
  by (simp add: date_eval calendar_eval)

section \<open>The operations\<close>

lemma sent_tables [simp]:
  "workouts (sent st d) = workouts d" "exercises (sent st d) = exercises d"
  "workoutExercises (sent st d) = workoutExercises d" "sets (sent st d) = sets d"
  "workouts_id_seq (sent st d) = workouts_id_seq d" "now (sent st d) = now d"
  "statements (sent st d) = statements d @ [st]"
  by (simp_all add: sent_def)

lemma matching_id_user [simp]:
  "matching [IdEq i, UserIdEq u] r \<longleftrightarrow> w_id r = i \<and> w_userId r = u"
  by (simp add: matching_def)

lemma matching_user_date [simp]:
  "matching [UserIdEq u, DateEq s] r \<longleftrightarrow> w_userId r = u \<and> w_date r = s"
  by (simp add: matching_def)

lemma apply_update_keys [simp]:
  "w_id (apply_update v r) = w_id r" "w_userId (apply_update v r) = w_userId r"
  by (simp_all add: apply_update_def)

lemma filter_none: "list_all (\<lambda>r. \<not> P r) rows \<Longrightarrow> filter P rows = []"
  by (induction rows) auto

lemma map_if_none: "list_all (\<lambda>r. \<not> P r) rows \<Longrightarrow> map (\<lambda>r. if P r then f r else r) rows = rows"
  by (induction rows) auto

lemma filter_not_none: "list_all (\<lambda>r. \<not> P r) rows \<Longrightarrow> filter (\<lambda>r. \<not> P r) rows = rows"
  by (induction rows) auto

lemma no_target_filter:
  assumes "no_target u i d"
  shows "filter (matching [IdEq i, UserIdEq u]) (workouts d) = []"
    and "map (\<lambda>r. if matching [IdEq i, UserIdEq u] r then f r else r) (workouts d) = workouts d"
    and "filter (\<lambda>r. \<not> matching [IdEq i, UserIdEq u] r) (workouts d) = workouts d"
  using assms filter_none [of "matching [IdEq i, UserIdEq u]" "workouts d"]
    map_if_none [of "matching [IdEq i, UserIdEq u]" "workouts d" f]
    filter_not_none [of "matching [IdEq i, UserIdEq u]" "workouts d"]
  by (simp_all add: no_target_def is_target_def)

text \<open>What update and delete leave alone.\<close>

lemma update_workouts_others:
  "filter (\<lambda>r. \<not> is_target u i r) (workouts (snd (update_workouts v [IdEq i, UserIdEq u] d))) =
   filter (\<lambda>r. \<not> is_target u i r) (workouts d)"
proof -
  have "filter (\<lambda>r. \<not> is_target u i r) (map (\<lambda>r. if is_target u i r then apply_update v r else r) rows) =
        filter (\<lambda>r. \<not> is_target u i r) rows" for rows
    by (induction rows) (auto simp: is_target_def)
  then show ?thesis by (simp add: update_workouts_def is_target_def)
qed

lemma updateWorkout_others:
  "filter (\<lambda>r. \<not> is_target u i r) (workouts (snd (updateWorkout (Some u) i data d))) =
   filter (\<lambda>r. \<not> is_target u i r) (workouts d)"
proof -
  have *: "filter (\<lambda>r. \<not> is_target u i r) (workouts (snd (case update_workouts v [IdEq i, UserIdEq u] d of
             (Inl e, d') \<Rightarrow> (Inl e, d') | (Inr rows, d') \<Rightarrow> (Inr (first_row rows), d')))) =
           filter (\<lambda>r. \<not> is_target u i r) (workouts d)" for v
    using update_workouts_others [of u i v d]
    by (cases "update_workouts v [IdEq i, UserIdEq u] d") (auto split: sum.splits)
  show ?thesis
    unfolding updateWorkout_def Let_def
    by (auto simp: * split: option.splits sum.splits)
qed

lemma deleteWorkout_others:
  "filter (\<lambda>r. \<not> is_target u i r) (workouts (snd (deleteWorkout (Some u) i d))) =
   filter (\<lambda>r. \<not> is_target u i r) (workouts d)"
  by (auto simp: deleteWorkout_def delete_workouts_def Let_def is_target_def intro: filter_cong)

lemma same_tables_refl [simp]: "same_tables d d" "same_tables (sent st d) d"
  by (simp_all add: same_tables_def)

lemma update_workouts_no_target:
  assumes "no_target u i d"
  shows "update_workouts v [IdEq i, UserIdEq u] d =
           (if no_values v then (Inl NoValuesToSet, d)
            else (Inr [], sent (UpdateWorkouts [IdEq i, UserIdEq u]) (d\<lparr>workouts := workouts d\<rparr>)))"
  by (simp add: update_workouts_def no_target_filter [OF assms] del: matching_id_user)

lemma delete_workouts_no_target:
  assumes "no_target u i d"
  shows "delete_workouts [IdEq i, UserIdEq u] d =
           ([], sent (DeleteWorkouts [IdEq i, UserIdEq u])
                  (d\<lparr>workouts := workouts d, workoutExercises := workoutExercises d, sets := sets d\<rparr>))"
  by (simp add: delete_workouts_def Let_def no_target_filter [OF assms] del: matching_id_user)

lemma updateWorkout_no_target:
  assumes "no_target u i d"
  shows "fst (updateWorkout (Some u) i data d) = update_outcome u data"
    and "same_tables (snd (updateWorkout (Some u) i data d)) d"
  by (auto simp: updateWorkout_def update_outcome_def not_signed_in_def Let_def first_row_def
      update_workouts_no_target [OF assms] no_values_def same_tables_def
      split: option.splits sum.splits)

lemma deleteWorkout_no_target:
  assumes "no_target u i d"
  shows "fst (deleteWorkout (Some u) i d) = (if u = [] then Inl Unauthorized else Inr None)"
    and "same_tables (snd (deleteWorkout (Some u) i d)) d"
  by (auto simp: deleteWorkout_def not_signed_in_def first_row_def
      delete_workouts_no_target [OF assms] same_tables_def)

lemma iso_date_part_valid: "\<exists>s. iso_date_part (Some t) = Inr s"
  by (simp add: iso_date_part_def toISOString_def Let_def)

lemma update_outcome_accepted:
  assumes "u \<noteq> []" "date \<noteq> None"
  shows "update_outcome u \<lparr>ud_name = n, ud_date = Some date, ud_durationMinutes = m, ud_notes = t\<rparr> = Inr None"
proof -
  obtain tv where "date = Some tv" using assms(2) by auto
  then show ?thesis using assms(1) iso_date_part_valid [of tv]
    by (auto simp: update_outcome_def)
qed

lemma updateWorkoutAction_no_target:
  assumes "no_target u (int_of (ui_id input)) d"
  shows "fst (updateWorkoutAction (Some u) input d) = update_action_outcome u input"
    and "same_tables (snd (updateWorkoutAction (Some u) input d)) d"
proof -
  let ?data = "\<lparr>ud_name = Some (ui_name input),
                  ud_date = Some (newDateFromString (ui_date input)),
                  ud_durationMinutes = map_option int_of (ui_durationMinutes input),
                  ud_notes = ui_notes input\<rparr>"
  obtain r d' where r: "updateWorkout (Some u) (int_of (ui_id input)) ?data d = (r, d')"
    by (cases "updateWorkout (Some u) (int_of (ui_id input)) ?data d")
  have r1: "r = update_outcome u ?data" and r2: "same_tables d' d"
    using updateWorkout_no_target [OF assms, of ?data] r by simp_all
  show "fst (updateWorkoutAction (Some u) input d) = update_action_outcome u input"
    unfolding updateWorkoutAction_def update_action_outcome_def r r1 [symmetric]
    by (auto split: list.splits sum.splits option.splits)
  show "same_tables (snd (updateWorkoutAction (Some u) input d)) d"
    unfolding updateWorkoutAction_def r using r2
    by (auto split: list.splits sum.splits option.splits)
qed

lemma deleteWorkoutAction_no_target:
  assumes "no_target u (int_of (di_id input)) d"
  shows "fst (deleteWorkoutAction (Some u) input d) =
           (case deleteWorkoutSchema input of
              issue # _ \<Rightarrow> Failure issue
            | [] \<Rightarrow> if u = [] then Failure (Text ''Failed to delete workout'')
                    else Failure (Text ''Workout not found or unauthorized''))"
    and "same_tables (snd (deleteWorkoutAction (Some u) input d)) d"
proof -
  obtain r d' where r: "deleteWorkout (Some u) (int_of (di_id input)) d = (r, d')"
    by (cases "deleteWorkout (Some u) (int_of (di_id input)) d")
  have r1: "r = (if u = [] then Inl Unauthorized else Inr None)" and r2: "same_tables d' d"
    using deleteWorkout_no_target [OF assms] r by simp_all
  show "fst (deleteWorkoutAction (Some u) input d) =
           (case deleteWorkoutSchema input of
              issue # _ \<Rightarrow> Failure issue
            | [] \<Rightarrow> if u = [] then Failure (Text ''Failed to delete workout'')
                    else Failure (Text ''Workout not found or unauthorized''))"
    unfolding deleteWorkoutAction_def r r1 by (auto split: list.splits)
  show "same_tables (snd (deleteWorkoutAction (Some u) input d)) d"
    unfolding deleteWorkoutAction_def r using r2 by (auto split: list.splits sum.splits option.splits)
qed

lemma deleteWorkout_other_exercises:
  "filter (\<lambda>we. we_workoutId we \<noteq> i) (workoutExercises (snd (deleteWorkout (Some u) i d))) =
   filter (\<lambda>we. we_workoutId we \<noteq> i) (workoutExercises d)"
  by (auto simp: deleteWorkout_def delete_workouts_def Let_def intro: filter_cong)

lemmas example_rows =
  example_db_def workout1_def workout2_def workout3_def squat_def lunge_def
  squats_of_workout1_def lunges_of_workout1_def squat_set_def

lemma newDateFromString_2025_09_02: "newDateFromString ''2025-09-02'' = Some 1756771200000"
  by (simp add: newDateFromString_def is_digits_def digit_val_def DaysInMonth_def calendar_eval)

lemma format_2025_09_01: "formatDateForDb 7200000 (Some 1756677600000) = ''2025-09-01''"
proof -
  have d: "Day (LocalTime 7200000 1756677600000) = 20332" by (simp add: calendar_eval)
  have f: "YearFromDay 20332 = 2025" "MonthFromDay 20332 = 8" "DateFromDay 20332 = 1"
    by (simp_all add: calendar_eval)
  show ?thesis by (simp add: date_eval d f string_eval)
qed

lemma example_workouts_on:
  "workouts_on ''u1'' ''2025-09-01'' example_db = [workout2, workout1]"
  by (simp add: workouts_on_def order_by_createdAt_desc_def example_rows)

lemma replicate_small:
  "replicate 1 c = [c]" "replicate 2 c = [c, c]" "replicate 3 c = [c, c, c]"
  by (simp_all add: numeral_2_eq_2 numeral_3_eq_3)

lemma toISOString_local_midnight:
  "toISOString (Some 1756677600000) = Inr ''2025-08-31T22:00:00.000Z''"
proof -
  have d: "Day 1756677600000 = 20331" "TimeWithinDay 1756677600000 = 79200000"
    by (simp_all add: Day_def TimeWithinDay_def msPerDay_def)
  have f: "YearFromDay 20331 = 2025" "MonthFromDay 20331 = 7" "DateFromDay 20331 = 31"
    by (simp_all add: calendar_eval)
  show ?thesis by (simp add: toISOString_def Let_def d f string_eval replicate_small)
qed

lemma iso_date_part_local_midnight: "iso_date_part (Some 1756677600000) = Inr ''2025-08-31''"
  by (simp add: iso_date_part_def toISOString_local_midnight)

lemma month_bounds_2025_09:
  "newDate 7200000 (Some 2025) (Some 8) (Some 1) = Some 1756677600000"
  "newDate 7200000 (Some 2025) (Some 9) (Some 0) = Some 1759183200000"
  by (simp_all add: newDate_def calendar_eval)

lemma format_2025_09_30: "formatDateForDb 7200000 (Some 1759183200000) = ''2025-09-30''"
proof -
  have d: "Day (LocalTime 7200000 1759183200000) = 20361" by (simp add: calendar_eval)
  have f: "YearFromDay 20361 = 2025" "MonthFromDay 20361 = 8" "DateFromDay 20361 = 30"
    by (simp_all add: calendar_eval)
  show ?thesis by (simp add: date_eval d f string_eval)
qed

lemma date_ordinals:
  "date_ordinal ''2025-08-31'' = Some 20331" "date_ordinal ''2025-09-01'' = Some 20332"
  "date_ordinal ''2025-09-15'' = Some 20346" "date_ordinal ''2025-09-30'' = Some 20361"
  by (simp_all add: date_ordinal_def digit_val_def MakeDay_def DayFromYear_def InLeapYear_def
      DaysBeforeMonth_def)

lemma september_dates:
  "fst (select_distinct_dates
          [UserIdEq ''u1'', DateGte ''2025-09-01'', DateLte ''2025-09-30''] september_db) =
     [''2025-09-15'', ''2025-09-01'']"
  by (simp add: select_distinct_dates_def matching_def september_db_def empty_db_def logged_def
      date_le_def date_ordinals)

lemma parse_september:
  "parseDateFromDb 7200000 ''2025-09-15'' = Some 1757887200000"
  "parseDateFromDb 7200000 ''2025-09-01'' = Some 1756677600000"
  by (simp_all add: date_eval string_eval calendar_eval)

section \<open>Grouping the joined rows\<close>

lemma push_set_keys [simp]: "map fst (push_set k s m) = map fst m"
  by (induction m) (auto simp: push_set_def)

lemma add_item_keys:
  "map fst (add_item m x) =
     (if exerciseId_of x \<in> set (map fst m) then map fst m else map fst m @ [exerciseId_of x])"
  by (simp add: add_item_def Let_def has_key_def exerciseId_of_def split: option.splits)

lemma foldl_add_item_keys:
  "distinct (map fst (foldl add_item [] xs)) \<and>
   set (map fst (foldl add_item [] xs)) = exerciseId_of ` set xs"
proof (induction xs rule: rev_induct)
  case Nil
  show ?case by simp
next
  case (snoc x xs)
  then show ?case by (auto simp: add_item_keys)
qed

lemma joined_sets_snoc:
  "joined_sets k (xs @ [x]) =
     joined_sets k xs @
     (if exerciseId_of x = k then (case set_of x of None \<Rightarrow> [] | Some s \<Rightarrow> [s]) else [])"
  by (simp add: joined_sets_def)

lemma joined_sets_absent: "k \<notin> exerciseId_of ` set xs \<Longrightarrow> joined_sets k xs = []"
  by (induction xs) (auto simp: joined_sets_def)

lemma in_push_set:
  "(k, e) \<in> set (push_set kx s m) \<longleftrightarrow>
     (\<exists>e0. (k, e0) \<in> set m \<and> e = (if k = kx then e0\<lparr>ev_sets := ev_sets e0 @ [s]\<rparr> else e0))"
proof
  assume "(k, e) \<in> set (push_set kx s m)"
  then obtain k0 e0 where m: "(k0, e0) \<in> set m"
    and eq: "(k, e) = (if k0 = kx then (k0, e0\<lparr>ev_sets := ev_sets e0 @ [s]\<rparr>) else (k0, e0))"
    by (auto simp: push_set_def)
  from eq have "k0 = k" by (simp split: if_splits)
  with m eq show "\<exists>e0. (k, e0) \<in> set m \<and>
      e = (if k = kx then e0\<lparr>ev_sets := ev_sets e0 @ [s]\<rparr> else e0)"
    by (auto split: if_splits)
next
  assume "\<exists>e0. (k, e0) \<in> set m \<and> e = (if k = kx then e0\<lparr>ev_sets := ev_sets e0 @ [s]\<rparr> else e0)"
  then obtain e0 where "(k, e0) \<in> set m"
    and "e = (if k = kx then e0\<lparr>ev_sets := ev_sets e0 @ [s]\<rparr> else e0)" by blast
  then show "(k, e) \<in> set (push_set kx s m)"
    by (force simp: push_set_def)
qed

lemma foldl_add_item_sets:
  "(k, e) \<in> set (foldl add_item [] xs) \<Longrightarrow> ev_sets e = map set_view_of (joined_sets k xs)"
proof (induction xs arbitrary: k e rule: rev_induct)
  case Nil
  then show ?case by simp
next
  case (snoc x xs)
  let ?m = "foldl add_item [] xs"
  let ?kx = "exerciseId_of x"
  let ?fresh = "\<lparr>ev_id = e_id (exercise x), ev_name = e_name (exercise x), ev_sets = []\<rparr>"
  let ?m' = "if \<not> has_key ?m ?kx then ?m @ [(?kx, ?fresh)] else ?m"
  have keys: "set (map fst ?m) = exerciseId_of ` set xs"
    using foldl_add_item_keys [of xs] by simp
  have m': "ev_sets e0 = map set_view_of (joined_sets k0 xs)" if "(k0, e0) \<in> set ?m'" for k0 e0
  proof (cases "(k0, e0) \<in> set ?m")
    case True
    then show ?thesis by (rule snoc.IH)
  next
    case False
    with that have "\<not> has_key ?m ?kx" and eq: "k0 = ?kx" "e0 = ?fresh"
      by (auto split: if_splits)
    then have "?kx \<notin> exerciseId_of ` set xs" using keys by (simp add: has_key_def)
    then show ?thesis using eq by (simp add: joined_sets_absent)
  qed
  have step: "foldl add_item [] (xs @ [x]) =
      (case set_of x of None \<Rightarrow> ?m' | Some s \<Rightarrow> push_set ?kx (set_view_of s) ?m')"
    unfolding exerciseId_of_def by (simp add: add_item_def Let_def split: option.splits)
  show ?case
  proof (cases "set_of x")
    case None
    with snoc.prems step have "(k, e) \<in> set ?m'" by simp
    then show ?thesis using m' None by (simp add: joined_sets_snoc)
  next
    case (Some s)
    with snoc.prems step have "(k, e) \<in> set (push_set ?kx (set_view_of s) ?m')" by simp
    then obtain e0 where e0: "(k, e0) \<in> set ?m'"
      and e: "e = (if k = ?kx then e0\<lparr>ev_sets := ev_sets e0 @ [set_view_of s]\<rparr> else e0)"
      unfolding in_push_set by blast
    show ?thesis using m' [OF e0] e Some by (simp add: joined_sets_snoc)
  qed
qed

lemma exercisesMap_keys: "map fst (exercisesMap items) = map fst (foldl add_item [] items)"
  by (simp add: exercisesMap_def case_prod_unfold comp_def)

lemma exercisesMap_sets:
  assumes "(k, e) \<in> set (exercisesMap items)"
  shows "ev_sets e = sort_key setNumber (map set_view_of (joined_sets k items))"
proof -
  from assms obtain e0 where "(k, e0) \<in> set (foldl add_item [] items)"
    and "e = e0\<lparr>ev_sets := sort_key setNumber (ev_sets e0)\<rparr>"
    by (auto simp: exercisesMap_def)
  then show ?thesis using foldl_add_item_sets [of k e0 items] by simp
qed

lemma length_joined_sets:
  "length (joined_sets k items) =
     length (filter (\<lambda>item. exerciseId_of item = k \<and> set_of item \<noteq> None) items)"
  by (induction items) (auto simp: joined_sets_def split: option.splits)

lemma joined_sets_none:
  "(\<forall>item \<in> set items. exerciseId_of item = k \<longrightarrow> set_of item = None) \<Longrightarrow> joined_sets k items = []"
  by (induction items) (auto simp: joined_sets_def)

lemma example_items_rows:
  "example_items =
     [\<lparr>workoutExercise = squats_of_workout1, exercise = squat, set_of = Some (squat_set 1 3)\<rparr>,
      \<lparr>workoutExercise = squats_of_workout1, exercise = squat, set_of = Some (squat_set 2 1)\<rparr>,
      \<lparr>workoutExercise = squats_of_workout1, exercise = squat, set_of = Some (squat_set 3 2)\<rparr>,
      \<lparr>workoutExercise = lunges_of_workout1, exercise = lunge, set_of = None\<rparr>]"
  by (simp add: example_items_def select_workout_exercises_def join_rows_def example_rows)

section \<open>The order of the workouts of a day\<close>

lemma sorted_before:
  assumes "sorted (map f xs)" "a \<in> set xs" "b \<in> set xs" "f a < f b"
  shows "\<exists>pre mid post. xs = pre @ [a] @ mid @ [b] @ post"
proof -
  from assms(2) obtain ys zs where xs: "xs = ys @ a # zs" by (auto simp: in_set_conv_decomp)
  have "b \<notin> set ys"
  proof
    assume "b \<in> set ys"
    then have "f b \<le> f a" using assms(1) by (auto simp: xs sorted_append)
    with assms(4) show False by simp
  qed
  moreover have "b \<noteq> a" using assms(4) by auto
  ultimately have "b \<in> set zs" using assms(3) by (simp add: xs)
  then obtain us vs where "zs = us @ b # vs" by (auto simp: in_set_conv_decomp)
  then have "xs = ys @ [a] @ us @ [b] @ vs" by (simp add: xs)
  then show ?thesis by blast
qed

lemma order_by_createdAt_desc_before:
  assumes "older \<in> set rows" "newer \<in> set rows" "w_createdAt older < w_createdAt newer"
  shows "\<exists>pre mid post. order_by_createdAt_desc rows = pre @ [newer] @ mid @ [older] @ post"
proof (rule sorted_before [where f = "\<lambda>r. - w_createdAt r"])
  show "sorted (map (\<lambda>r. - w_createdAt r) (order_by_createdAt_desc rows))"
    by (simp add: order_by_createdAt_desc_def)
  show "newer \<in> set (order_by_createdAt_desc rows)" "older \<in> set (order_by_createdAt_desc rows)"
    using assms by (simp_all add: order_by_createdAt_desc_def)
  show "- w_createdAt newer < - w_createdAt older" using assms(3) by simp
qed

lemma sorted_negated:
  fixes f :: "'a \<Rightarrow> int"
  shows "sorted (map (\<lambda>r. - f r) xs) \<Longrightarrow> sorted (rev (map f xs))"
  by (induction xs) (auto simp: sorted_append)

lemma order_by_createdAt_desc_sorted:
  "sorted (rev (map w_createdAt (order_by_createdAt_desc rows)))"
  by (rule sorted_negated) (simp add: order_by_createdAt_desc_def)

lemma wv_id_view_of [simp]: "wv_id (view_of a w) = w_id w"
  by (simp add: view_of_def Let_def)

lemma matching_user_date_fun:
  "matching [UserIdEq u, DateEq s] = (\<lambda>w. w_userId w = u \<and> w_date w = s)"
  by (rule ext) simp

lemma getWorkoutsByDate_ids:
  assumes "u \<noteq> []"
  shows "\<exists>views. fst (getWorkoutsByDate tza (Some u) date d) = Inr views \<and>
           map wv_id views =
             map w_id (order_by_createdAt_desc
               (filter (\<lambda>w. w_userId w = u \<and> w_date w = formatDateForDb tza date) (workouts d)))"
  using assms
  by (auto simp: getWorkoutsByDate_def not_signed_in_def select_workouts_def Let_def comp_def
      matching_user_date_fun split: prod.splits)

section \<open>What a read depends on\<close>

lemma join_rows_sent [simp]: "join_rows (sent st d) = join_rows d"
  by (rule ext) (simp add: join_rows_def)

lemma select_workout_exercises_sent [simp]:
  "fst (select_workout_exercises i (sent st d)) = fst (select_workout_exercises i d)"
  by (simp add: select_workout_exercises_def)

lemma fetch_all_fst:
  "fst (fetch_all ids d) = map (\<lambda>i. (i, fst (select_workout_exercises i d))) ids"
proof (induction ids arbitrary: d)
  case Nil
  show ?case by simp
next
  case (Cons i ids)
  have "fst (fetch_all ids (snd (select_workout_exercises i d))) =
      map (\<lambda>i. (i, fst (select_workout_exercises i d))) ids"
    unfolding Cons.IH by (simp add: select_workout_exercises_def)
  then show ?case by (simp add: case_prod_unfold Let_def)
qed

lemma fetch_all_statements:
  "statements (snd (fetch_all ids d)) =
     statements d @ map (\<lambda>i. SelectWorkoutExercises [WorkoutIdEq i]) ids"
proof (induction ids arbitrary: d)
  case Nil
  show ?case by simp
next
  case (Cons i ids)
  show ?case
    by (simp add: case_prod_unfold Let_def Cons.IH) (simp add: select_workout_exercises_def)
qed

lemma owned_join_rows:
  assumes "same_for u d d'" and "we \<in> set (owned_workoutExercises u d)"
  shows "join_rows d we = join_rows d' we"
proof -
  have in_d: "we_id we \<in> set (map we_id (owned_workoutExercises u d))"
    using assms(2) by simp
  then have in_d': "we_id we \<in> set (map we_id (owned_workoutExercises u d'))"
    using assms(1) by (simp add: same_for_def)
  have "filter (\<lambda>s. s_workoutExerciseId s = we_id we) (sets d) =
        filter (\<lambda>s. s_workoutExerciseId s = we_id we) (owned_sets u d)"
    unfolding owned_sets_def filter_filter using in_d by (intro filter_cong) auto
  moreover have "filter (\<lambda>s. s_workoutExerciseId s = we_id we) (sets d') =
        filter (\<lambda>s. s_workoutExerciseId s = we_id we) (owned_sets u d')"
    unfolding owned_sets_def filter_filter using in_d' by (intro filter_cong) auto
  ultimately have "filter (\<lambda>s. s_workoutExerciseId s = we_id we) (sets d) =
        filter (\<lambda>s. s_workoutExerciseId s = we_id we) (sets d')"
    using assms(1) by (simp add: same_for_def)
  then show ?thesis using assms(1) by (simp add: join_rows_def same_for_def)
qed

lemma owned_select_workout_exercises:
  assumes "same_for u d d'" and "i \<in> set (map w_id (owned_workouts u d))"
  shows "fst (select_workout_exercises i d) = fst (select_workout_exercises i d')"
proof -
  have i': "i \<in> set (map w_id (owned_workouts u d'))"
    using assms by (simp add: same_for_def)
  have a: "filter (\<lambda>we. we_workoutId we = i) (workoutExercises d) =
           filter (\<lambda>we. we_workoutId we = i) (owned_workoutExercises u d)"
    unfolding owned_workoutExercises_def filter_filter using assms(2) by (intro filter_cong) auto
  have b: "filter (\<lambda>we. we_workoutId we = i) (workoutExercises d') =
           filter (\<lambda>we. we_workoutId we = i) (owned_workoutExercises u d')"
    unfolding owned_workoutExercises_def filter_filter using i' by (intro filter_cong) auto
  have c: "filter (\<lambda>we. we_workoutId we = i) (workoutExercises d) =
           filter (\<lambda>we. we_workoutId we = i) (workoutExercises d')"
    using a b assms(1) by (simp add: same_for_def)
  have m: "map (join_rows d) (filter (\<lambda>we. we_workoutId we = i) (workoutExercises d)) =
        map (join_rows d') (filter (\<lambda>we. we_workoutId we = i) (workoutExercises d))"
    unfolding a using owned_join_rows [OF assms(1)] by (intro map_cong) auto
  have "fst (select_workout_exercises i d) =
      concat (map (join_rows d) (filter (\<lambda>we. we_workoutId we = i) (workoutExercises d)))"
    by (simp add: select_workout_exercises_def)
  also have "\<dots> =
      concat (map (join_rows d') (filter (\<lambda>we. we_workoutId we = i) (workoutExercises d)))"
    by (simp only: m)
  also have "\<dots> =
      concat (map (join_rows d') (filter (\<lambda>we. we_workoutId we = i) (workoutExercises d')))"
    by (simp only: c)
  also have "\<dots> = fst (select_workout_exercises i d')"
    by (simp add: select_workout_exercises_def)
  finally show ?thesis .
qed

lemma getWorkoutsByDate_result:
  assumes "u \<noteq> []"
  shows "fst (getWorkoutsByDate tza (Some u) date d) =
           Inr (map (view_of (map (\<lambda>i. (i, fst (select_workout_exercises i d)))
                                (map w_id (workouts_on u (formatDateForDb tza date) d))))
                  (workouts_on u (formatDateForDb tza date) d))"
  using assms
  by (simp add: getWorkoutsByDate_def not_signed_in_def select_workouts_def Let_def
      case_prod_unfold fetch_all_fst matching_user_date_fun workouts_on_def)

lemma getWorkoutsByDate_statements:
  assumes "u \<noteq> []"
  shows "statements (snd (getWorkoutsByDate tza (Some u) date d)) =
           statements d @ [SelectWorkouts [UserIdEq u, DateEq (formatDateForDb tza date)]] @
           map (\<lambda>i. SelectWorkoutExercises [WorkoutIdEq i])
             (map w_id (workouts_on u (formatDateForDb tza date) d))"
  using assms
  by (simp add: getWorkoutsByDate_def not_signed_in_def select_workouts_def Let_def
      case_prod_unfold fetch_all_statements matching_user_date_fun workouts_on_def)

lemma workouts_on_owned:
  "workouts_on u s d = order_by_createdAt_desc (filter (\<lambda>w. w_date w = s) (owned_workouts u d))"
  by (simp add: workouts_on_def owned_workouts_def conj_commute)

lemma workouts_on_ids_owned:
  "set (map w_id (workouts_on u s d)) \<subseteq> set (map w_id (owned_workouts u d))"
  by (auto simp: workouts_on_def order_by_createdAt_desc_def owned_workouts_def)

lemma getWorkoutsByDate_same_for:
  assumes "same_for u d d'"
  shows "fst (getWorkoutsByDate tza (Some u) date d) = fst (getWorkoutsByDate tza (Some u) date d')"
proof (cases "u = []")
  case True
  then show ?thesis by (simp add: getWorkoutsByDate_def not_signed_in_def)
next
  case False
  let ?s = "formatDateForDb tza date"
  have rows: "workouts_on u ?s d = workouts_on u ?s d'"
    using assms by (simp add: workouts_on_owned same_for_def)
  have "map (\<lambda>i. (i, fst (select_workout_exercises i d))) (map w_id (workouts_on u ?s d)) =
        map (\<lambda>i. (i, fst (select_workout_exercises i d'))) (map w_id (workouts_on u ?s d))"
  proof (rule map_cong [OF refl])
    fix i assume "i \<in> set (map w_id (workouts_on u ?s d))"
    then have "i \<in> set (map w_id (owned_workouts u d))"
      using workouts_on_ids_owned [of u ?s d] by blast
    then show "(i, fst (select_workout_exercises i d)) = (i, fst (select_workout_exercises i d'))"
      using owned_select_workout_exercises [OF assms] by simp
  qed
  then show ?thesis
    by (simp only: getWorkoutsByDate_result [OF False] rows [symmetric])
qed

section \<open>Validation in the actions\<close>

text \<open>
  An input with an issue never reaches the helper: the action returns the first issue
  and the database is as it was.
\<close>

lemma createWorkoutAction_rejected:
  assumes "createWorkoutSchema input = issue # issues"
  shows "createWorkoutAction caller input d = (Failure issue, d)"
  by (simp add: createWorkoutAction_def assms)

lemma updateWorkoutAction_rejected:
  assumes "updateWorkoutSchema input = issue # issues"
  shows "updateWorkoutAction caller input d = (Failure issue, d)"
  by (simp add: updateWorkoutAction_def assms)

lemma deleteWorkoutAction_rejected:
  assumes "deleteWorkoutSchema input = issue # issues"
  shows "deleteWorkoutAction caller input d = (Failure issue, d)"
  by (simp add: deleteWorkoutAction_def assms)

lemma length_long_name: "length long_name = 101"
  by (simp add: long_name_def)

section \<open>The grouping as a function of the joined rows\<close>

text \<open>
  The map filled by \<^verbatim>\<open>exercisesMap\<close> has its keys in the order of their first
  occurrence, every entry carries the exercise of the first row with its key, and so
  the code's grouping is the grouping of the specification.
\<close>

lemma foldl_add_item_key_order:
  "map fst (foldl add_item [] xs) = exercise_keys xs"
proof (induction xs rule: rev_induct)
  case Nil
  show ?case by (simp add: exercise_keys_def)
next
  case (snoc x xs)
  have "set (exercise_keys xs) = exerciseId_of ` set xs"
    by (simp add: exercise_keys_def)
  then show ?case using snoc
    by (auto simp: add_item_keys exercise_keys_def)
qed

lemma in_push_set_fields:
  assumes "(k, e) \<in> set (push_set kx s m)"
  shows "\<exists>e0. (k, e0) \<in> set m \<and> ev_id e = ev_id e0 \<and> ev_name e = ev_name e0"
  using assms unfolding in_push_set by auto

lemma foldl_add_item_exercise:
  "(k, e) \<in> set (foldl add_item [] xs) \<Longrightarrow>
     ev_id e = e_id (exercise (hd (filter (\<lambda>item. exerciseId_of item = k) xs))) \<and>
     ev_name e = e_name (exercise (hd (filter (\<lambda>item. exerciseId_of item = k) xs)))"
proof (induction xs arbitrary: k e rule: rev_induct)
  case Nil
  then show ?case by simp
next
  case (snoc x xs)
  let ?m = "foldl add_item [] xs"
  let ?kx = "exerciseId_of x"
  let ?fresh = "\<lparr>ev_id = e_id (exercise x), ev_name = e_name (exercise x), ev_sets = []\<rparr>"
  let ?m' = "if \<not> has_key ?m ?kx then ?m @ [(?kx, ?fresh)] else ?m"
  let ?first = "\<lambda>k ys. hd (filter (\<lambda>item. exerciseId_of item = k) ys)"
  have keys: "set (map fst ?m) = exerciseId_of ` set xs"
    using foldl_add_item_keys [of xs] by simp
  have m': "ev_id e0 = e_id (exercise (?first k0 (xs @ [x]))) \<and>
            ev_name e0 = e_name (exercise (?first k0 (xs @ [x])))"
    if "(k0, e0) \<in> set ?m'" for k0 e0
  proof (cases "(k0, e0) \<in> set ?m")
    case True
    then have "k0 \<in> set (map fst ?m)" by force
    then have "filter (\<lambda>item. exerciseId_of item = k0) xs \<noteq> []"
      unfolding keys by (auto simp: filter_empty_conv)
    then have "?first k0 (xs @ [x]) = ?first k0 xs" by simp
    then show ?thesis using snoc.IH [OF True] by simp
  next
    case False
    with that have nk: "\<not> has_key ?m ?kx" and eq: "k0 = ?kx" "e0 = ?fresh"
      by (auto split: if_splits)
    then have "?kx \<notin> exerciseId_of ` set xs" using keys by (simp add: has_key_def)
    then have "filter (\<lambda>item. exerciseId_of item = ?kx) xs = []"
      by (auto simp: filter_empty_conv image_iff)
    then show ?thesis using eq by simp
  qed
  have step: "foldl add_item [] (xs @ [x]) =
      (case set_of x of None \<Rightarrow> ?m' | Some s \<Rightarrow> push_set ?kx (set_view_of s) ?m')"
    unfolding exerciseId_of_def by (simp add: add_item_def Let_def split: option.splits)
  show ?case
  proof (cases "set_of x")
    case None
    with snoc.prems step have "(k, e) \<in> set ?m'" by simp
    then show ?thesis by (rule m')
  next
    case (Some s)
    with snoc.prems step have "(k, e) \<in> set (push_set ?kx (set_view_of s) ?m')" by simp
    from in_push_set_fields [OF this]
    obtain e0 where "(k, e0) \<in> set ?m'" "ev_id e = ev_id e0" "ev_name e = ev_name e0"
      by blast
    then show ?thesis using m' [of k e0] by simp
  qed
qed

lemma exercisesMap_entry:
  assumes "(k, e) \<in> set (exercisesMap items)"
  shows "e = entry_for k items"
proof -
  from assms obtain e0 where e0: "(k, e0) \<in> set (foldl add_item [] items)"
    and e: "e = e0\<lparr>ev_sets := sort_key setNumber (ev_sets e0)\<rparr>"
    by (auto simp: exercisesMap_def)
  have "ev_sets e = sort_key setNumber (map set_view_of (joined_sets k items))"
    by (rule exercisesMap_sets [OF assms])
  moreover have "ev_id e = e_id (exercise (hd (filter (\<lambda>item. exerciseId_of item = k) items)))"
    "ev_name e = e_name (exercise (hd (filter (\<lambda>item. exerciseId_of item = k) items)))"
    using foldl_add_item_exercise [OF e0] e by simp_all
  ultimately show ?thesis by (simp add: entry_for_def Let_def)
qed

lemma group_exercises_grouped: "group_exercises items = grouped items"
proof -
  have "map snd (exercisesMap items) = map (\<lambda>p. entry_for (fst p) items) (exercisesMap items)"
    by (rule map_cong [OF refl]) (use exercisesMap_entry in \<open>auto simp: prod_eq_iff\<close>)
  also have "\<dots> = map (\<lambda>k. entry_for k items) (map fst (exercisesMap items))"
    by (simp add: comp_def)
  finally show ?thesis
    by (simp add: group_exercises_def grouped_def exercisesMap_keys foldl_add_item_key_order)
qed

lemma find_by_id:
  "find (\<lambda>item. fst item = i) (map (\<lambda>j. (j, f j)) ids) =
     (if i \<in> set ids then Some (i, f i) else None)"
  by (induction ids) auto

lemma view_of_grouped_view:
  assumes "w_id w \<in> set ids"
  shows "view_of (map (\<lambda>i. (i, fst (select_workout_exercises i d))) ids) w = grouped_view d w"
  using assms
  by (simp add: view_of_def grouped_view_def Let_def find_by_id group_exercises_grouped)

lemma getWorkoutsByDate_grouped_views:
  assumes "u \<noteq> []"
  shows "fst (getWorkoutsByDate tza (Some u) date d) =
           Inr (map (grouped_view d) (workouts_on u (formatDateForDb tza date) d))"
proof -
  let ?ws = "workouts_on u (formatDateForDb tza date) d"
  let ?all = "map (\<lambda>i. (i, fst (select_workout_exercises i d))) (map w_id ?ws)"
  have "view_of ?all w = grouped_view d w" if "w \<in> set ?ws" for w
    by (rule view_of_grouped_view) (use that in simp)
  then have "map (view_of ?all) ?ws = map (grouped_view d) ?ws"
    by (intro map_cong [OF refl])
  then show ?thesis
    unfolding getWorkoutsByDate_result [OF assms] by (rule arg_cong)
qed

text \<open>
  The rows of the join carry the exercise whose id is the key, so the entries of the
  grouping have the keys as their ids.
\<close>

lemma select_workout_exercises_exercise:
  "item \<in> set (fst (select_workout_exercises i d)) \<Longrightarrow> e_id (exercise item) = exerciseId_of item"
  by (auto simp: select_workout_exercises_def join_rows_def exerciseId_of_def Let_def
      split: if_splits)

lemma exercise_keys_set [simp]:
  "set (exercise_keys items) = exerciseId_of ` set items" "distinct (exercise_keys items)"
  by (simp_all add: exercise_keys_def)

lemma entry_for_sets [simp]:
  "ev_sets (entry_for k items) = sort_key setNumber (map set_view_of (joined_sets k items))"
  by (simp add: entry_for_def Let_def)

lemma entry_for_id:
  assumes "\<forall>item \<in> set items. e_id (exercise item) = exerciseId_of item"
    and "k \<in> exerciseId_of ` set items"
  shows "ev_id (entry_for k items) = k"
proof -
  let ?rows = "filter (\<lambda>item. exerciseId_of item = k) items"
  from assms(2) have "?rows \<noteq> []" by (auto simp: filter_empty_conv)
  then have "hd ?rows \<in> set ?rows" by (rule hd_in_set)
  then have "hd ?rows \<in> set items" "exerciseId_of (hd ?rows) = k" by simp_all
  with assms(1) show ?thesis by (simp add: entry_for_def Let_def)
qed

lemma grouped_ids:
  assumes "\<forall>item \<in> set items. e_id (exercise item) = exerciseId_of item"
  shows "map ev_id (grouped items) = exercise_keys items"
proof -
  have "map (\<lambda>k. ev_id (entry_for k items)) (exercise_keys items) = exercise_keys items"
    by (rule map_idI) (simp add: entry_for_id [OF assms])
  then show ?thesis by (simp add: grouped_def comp_def)
qed

lemma grouped_entry:
  assumes "\<forall>item \<in> set items. e_id (exercise item) = exerciseId_of item"
    and "e \<in> set (grouped items)"
  shows "e = entry_for (ev_id e) items"
proof -
  from assms(2) obtain k where k: "k \<in> exerciseId_of ` set items" and e: "e = entry_for k items"
    by (auto simp: grouped_def)
  from entry_for_id [OF assms(1) k] e show ?thesis by simp
qed

lemma sorted_sort_key_setNumber: "sorted (map setNumber (sort_key setNumber xs))"
  by (rule sorted_sort_key)

lemma grouped_properties:
  assumes "\<forall>item \<in> set items. e_id (exercise item) = exerciseId_of item"
  shows "map ev_id (grouped items) = exercise_keys items"
    and "distinct (map ev_id (grouped items))"
    and "set (map ev_id (grouped items)) = exerciseId_of ` set items"
    and "length (grouped items) = card (exerciseId_of ` set items)"
    and "e \<in> set (grouped items) \<Longrightarrow>
           ev_sets e = sort_key setNumber (map set_view_of (joined_sets (ev_id e) items))"
    and "e \<in> set (grouped items) \<Longrightarrow> sorted (map setNumber (ev_sets e))"
    and "e \<in> set (grouped items) \<Longrightarrow>
           length (ev_sets e) =
             length (filter (\<lambda>item. exerciseId_of item = ev_id e \<and> set_of item \<noteq> None) items)"
    and "e \<in> set (grouped items) \<Longrightarrow>
           (\<forall>item \<in> set items. exerciseId_of item = ev_id e \<longrightarrow> set_of item = None) \<Longrightarrow>
           ev_sets e = []"
proof -
  show ids: "map ev_id (grouped items) = exercise_keys items" by (rule grouped_ids [OF assms])
  show "distinct (map ev_id (grouped items))" unfolding ids by simp
  show "set (map ev_id (grouped items)) = exerciseId_of ` set items" unfolding ids by simp
  have "length (grouped items) = length (map ev_id (grouped items))" by simp
  also have "\<dots> = card (set (exercise_keys items))"
    unfolding ids using distinct_card [of "exercise_keys items"] by simp
  finally show "length (grouped items) = card (exerciseId_of ` set items)" by simp
next
  assume e: "e \<in> set (grouped items)"
  have eq: "e = entry_for (ev_id e) items" by (rule grouped_entry [OF assms e])
  show s: "ev_sets e = sort_key setNumber (map set_view_of (joined_sets (ev_id e) items))"
    by (subst eq) simp
  show "sorted (map setNumber (ev_sets e))" unfolding s by (rule sorted_sort_key)
  show "length (ev_sets e) =
          length (filter (\<lambda>item. exerciseId_of item = ev_id e \<and> set_of item \<noteq> None) items)"
    unfolding s by (simp add: length_joined_sets)
  show "ev_sets e = []"
    if "\<forall>item \<in> set items. exerciseId_of item = ev_id e \<longrightarrow> set_of item = None"
    unfolding s using joined_sets_none [OF that] by simp
qed


text \<open>The example database.\<close>

lemma example_no_rows: "fst (select_workout_exercises 2 example_db) = []"
  by (simp add: select_workout_exercises_def example_rows)

lemma newDateFromString_2025_09_01: "newDateFromString ''2025-09-01'' = Some 1756684800000"
  by (simp add: newDateFromString_def is_digits_def digit_val_def DaysInMonth_def calendar_eval)

lemma example_grouped:
  "grouped (fst (select_workout_exercises 1 example_db)) =
     [\<lparr>ev_id = 7, ev_name = ''Squat'',
       ev_sets = [set_view_of (squat_set 2 1), set_view_of (squat_set 3 2),
                  set_view_of (squat_set 1 3)]\<rparr>,
      \<lparr>ev_id = 8, ev_name = ''Lunge'', ev_sets = []\<rparr>]"
  unfolding example_items_def [symmetric]
  by (simp add: example_items_rows grouped_def exercise_keys_def entry_for_def joined_sets_def
      exerciseId_of_def set_view_of_def squats_of_workout1_def lunges_of_workout1_def squat_def
      lunge_def squat_set_def)

section \<open>Claim C1: the date round trip\<close>

text \<open>
  From the year 100 on the round trip holds, for every offset of at most a day:
  \<open>parseDateFromDb (formatDateForDb D)\<close> is the local midnight of the local day of
  \<open>D\<close>, so it has the local year, month and day of \<open>D\<close>.
\<close>

lemma parse_format_round_trip:
  assumes valid: "TimeClip t = Some t" and tz: "\<bar>tza\<bar> \<le> msPerDay"
    and year: "getFullYear tza (Some t) = Some y" and y: "100 \<le> y"
  shows "parseDateFromDb tza (formatDateForDb tza (Some t)) =
           Some (Day (LocalTime tza t) * msPerDay - tza) \<and>
         getFullYear tza (parseDateFromDb tza (formatDateForDb tza (Some t))) =
           getFullYear tza (Some t) \<and>
         getMonth tza (parseDateFromDb tza (formatDateForDb tza (Some t))) =
           getMonth tza (Some t) \<and>
         getDate tza (parseDateFromDb tza (formatDateForDb tza (Some t))) =
           getDate tza (Some t)"
proof -
  define d where "d = Day (LocalTime tza t)"
  have yd: "YearFromDay d = y" using year by (simp add: getFullYear_def d_def)
  have y0: "0 \<le> YearFromDay d" and y99: "\<not> (YearFromDay d \<le> 99)" using y yd by simp_all
  have m0: "0 \<le> MonthFromDay d" using MonthFromDay_range [of d] by simp
  have d0: "0 \<le> DateFromDay d" using DateFromDay_range [of d] by simp
  have fmt: "formatDateForDb tza (Some t) =
      String (Some (YearFromDay d)) @ ''-'' @
      padStart 2 CHR ''0'' (String (Some (MonthFromDay d + 1))) @ ''-'' @
      padStart 2 CHR ''0'' (String (Some (DateFromDay d)))"
    by (simp add: formatDateForDb_def getFullYear_def getMonth_def getDate_def d_def)
  have "parseDateFromDb tza (formatDateForDb tza (Some t)) =
      newDate tza (Some (YearFromDay d)) (Some (MonthFromDay d)) (Some (DateFromDay d))"
    unfolding fmt parseDateFromDb_def parse_format_fields [OF y0 m0 d0]
    by (simp add: element_def)
  also have "\<dots> = TimeClip (UTC tza (MakeDate d 0))"
    using y99 by (simp add: newDate_def MakeDay_inverse)
  also have "\<dots> = Some (d * msPerDay - tza)"
    unfolding d_def using valid tz by (rule local_midnight_in_range) (simp add: d_def [symmetric] yd y)
  finally have p: "parseDateFromDb tza (formatDateForDb tza (Some t)) = Some (d * msPerDay - tza)" .
  have "Day (LocalTime tza (d * msPerDay - tza)) = d"
    using Day_local_midnight [of tza d] by (simp add: UTC_def MakeDate_def)
  then show ?thesis
    unfolding p by (simp add: getFullYear_def getMonth_def getDate_def d_def)
qed

text \<open>The round trip on 1 September 2025, two hours east and five hours west of UTC.\<close>

lemma parse_format_round_trip_examples:
  "TimeClip 1756677600000 = Some 1756677600000 \<and> \<bar>7200000\<bar> \<le> msPerDay \<and>
   getFullYear 7200000 (Some 1756677600000) = Some 2025 \<and> (100::int) \<le> 2025 \<and>
   parseDateFromDb 7200000 (formatDateForDb 7200000 (Some 1756677600000)) = Some 1756677600000 \<and>
   getMonth 7200000 (parseDateFromDb 7200000 (formatDateForDb 7200000 (Some 1756677600000))) =
     getMonth 7200000 (Some 1756677600000) \<and>
   TimeClip 1756699200000 = Some 1756699200000 \<and> \<bar>- 18000000\<bar> \<le> msPerDay \<and>
   getFullYear (- 18000000) (Some 1756699200000) = Some 2025 \<and>
   parseDateFromDb (- 18000000) (formatDateForDb (- 18000000) (Some 1756699200000)) =
     Some 1756616400000 \<and>
   getDate (- 18000000) (parseDateFromDb (- 18000000) (formatDateForDb (- 18000000) (Some 1756699200000))) =
     getDate (- 18000000) (Some 1756699200000)"
proof -
  have a1: "TimeClip 1756677600000 = Some 1756677600000" by (simp add: TimeClip_def)
  have a2: "\<bar>7200000\<bar> \<le> msPerDay" by (simp add: msPerDay_def)
  have a3: "getFullYear 7200000 (Some 1756677600000) = Some 2025"
    by (simp add: date_eval calendar_eval)
  have a4: "(100::int) \<le> 2025" by simp
  have a5: "Day (LocalTime 7200000 1756677600000) * msPerDay - 7200000 = 1756677600000"
    by (simp add: calendar_eval)
  have b1: "TimeClip 1756699200000 = Some 1756699200000" by (simp add: TimeClip_def)
  have b2: "\<bar>- 18000000\<bar> \<le> msPerDay" by (simp add: msPerDay_def)
  have b3: "getFullYear (- 18000000) (Some 1756699200000) = Some 2025"
    by (simp add: date_eval calendar_eval)
  have b5: "Day (LocalTime (- 18000000) 1756699200000) * msPerDay - (- 18000000) = 1756616400000"
    by (simp add: calendar_eval)
  note r1 = parse_format_round_trip [OF a1 a2 a3 a4, unfolded a5]
  note r2 = parse_format_round_trip [OF b1 b2 b3 a4, unfolded b5]
  from r1 r2 a1 a2 a3 a4 b1 b2 b3 show ?thesis by blast
qed

text \<open>
  Claim C1 fails in the code for the years 0 to 99. On a host at UTC, the valid Date
  with the time value \<open>-60583939200000\<close> is 4 March of the year 50.
  \<open>formatDateForDb\<close> pads the month and the day but not the year and gives
  \<^verbatim>\<open>50-03-04\<close>, which is not of the form \<^verbatim>\<open>YYYY-MM-DD\<close> its comment
  promises; \<open>parseDateFromDb\<close> reads the year 50 from it and calls
  \<^verbatim>\<open>new Date(50, 2, 4)\<close>, which is 4 March 1950, since the constructor maps the
  years 0 to 99 to 1900 to 1999. The date that comes back has another year than the one
  that went in.
\<close>

theorem round_trip_fails_for_year_50:
  "TimeClip (- 60583939200000) = Some (- 60583939200000) \<and>
   getFullYear 0 (Some (- 60583939200000)) = Some 50 \<and>
   getMonth 0 (Some (- 60583939200000)) = Some 2 \<and>
   getDate 0 (Some (- 60583939200000)) = Some 4 \<and>
   formatDateForDb 0 (Some (- 60583939200000)) = ''50-03-04'' \<and>
   parseDateFromDb 0 (formatDateForDb 0 (Some (- 60583939200000))) = Some (- 625795200000) \<and>
   getFullYear 0 (parseDateFromDb 0 (formatDateForDb 0 (Some (- 60583939200000)))) = Some 1950"
proof -
  have d: "Day (LocalTime 0 (- 60583939200000)) = - 701203" by (simp add: calendar_eval)
  have "getFullYear 0 (Some (- 60583939200000)) = Some 50"
    "getMonth 0 (Some (- 60583939200000)) = Some 2"
    "getDate 0 (Some (- 60583939200000)) = Some 4"
    by (simp_all add: getFullYear_def getMonth_def getDate_def d fields_0050_03_04)
  then show ?thesis
    by (simp add: format_0050_03_04 parse_50_03_04 year_of_parsed_50 TimeClip_def)
qed

section \<open>Claim C2: a read sees the caller's rows only\<close>

text \<open>
  Claim C2, as amended. What \<open>getWorkoutsByDate\<close> returns to user \<open>u\<close> is the same
  in any two databases that hold the same rows of \<open>u\<close> and the same exercise
  catalogue, whatever else other users own in them. Every workout returned is a workout
  of \<open>u\<close>. The query on the workouts table has the ownership predicate; the queries
  for exercises and sets, one for each workout returned, are keyed by the id of that
  workout.
\<close>

theorem getWorkoutsByDate_isolation:
  assumes "same_for u d d'"
  shows "fst (getWorkoutsByDate tza (Some u) date d) =
           fst (getWorkoutsByDate tza (Some u) date d') \<and>
         (u \<noteq> [] \<longrightarrow>
            (\<exists>views. fst (getWorkoutsByDate tza (Some u) date d) = Inr views \<and>
               set (map wv_id views) \<subseteq> set (map w_id (owned_workouts u d)) \<and>
               statements (snd (getWorkoutsByDate tza (Some u) date d)) =
                 statements d @ [SelectWorkouts [UserIdEq u, DateEq (formatDateForDb tza date)]] @
                 map (\<lambda>v. SelectWorkoutExercises [WorkoutIdEq (wv_id v)]) views))"
proof (intro conjI impI)
  show "fst (getWorkoutsByDate tza (Some u) date d) = fst (getWorkoutsByDate tza (Some u) date d')"
    by (rule getWorkoutsByDate_same_for [OF assms])
next
  assume u: "u \<noteq> []"
  let ?rows = "workouts_on u (formatDateForDb tza date) d"
  let ?views = "map (view_of (map (\<lambda>i. (i, fst (select_workout_exercises i d))) (map w_id ?rows))) ?rows"
  have ids: "map wv_id ?views = map w_id ?rows" by (simp add: comp_def)
  have a: "fst (getWorkoutsByDate tza (Some u) date d) = Inr ?views"
    by (rule getWorkoutsByDate_result [OF u])
  have b: "set (map wv_id ?views) \<subseteq> set (map w_id (owned_workouts u d))"
    unfolding ids by (rule workouts_on_ids_owned)
  have "map (\<lambda>v. SelectWorkoutExercises [WorkoutIdEq (wv_id v)]) ?views =
        map (\<lambda>i. SelectWorkoutExercises [WorkoutIdEq i]) (map wv_id ?views)"
    by (simp only: map_map comp_def)
  then have c: "statements (snd (getWorkoutsByDate tza (Some u) date d)) =
                 statements d @ [SelectWorkouts [UserIdEq u, DateEq (formatDateForDb tza date)]] @
                 map (\<lambda>v. SelectWorkoutExercises [WorkoutIdEq (wv_id v)]) ?views"
    by (simp only: getWorkoutsByDate_statements [OF u] ids)
  from a b c
  show "\<exists>views. fst (getWorkoutsByDate tza (Some u) date d) = Inr views \<and>
               set (map wv_id views) \<subseteq> set (map w_id (owned_workouts u d)) \<and>
               statements (snd (getWorkoutsByDate tza (Some u) date d)) =
                 statements d @ [SelectWorkouts [UserIdEq u, DateEq (formatDateForDb tza date)]] @
                 map (\<lambda>v. SelectWorkoutExercises [WorkoutIdEq (wv_id v)]) views"
    by blast
qed

theorem getWorkoutsByDate_isolation_witness:
  "same_for ''u1'' example_db other_db \<and> workouts example_db \<noteq> workouts other_db \<and>
   sets example_db \<noteq> sets other_db \<and>
   fst (getWorkoutsByDate 7200000 (Some ''u1'') (Some 1756677600000) example_db) =
     fst (getWorkoutsByDate 7200000 (Some ''u1'') (Some 1756677600000) other_db)"
proof -
  have s: "same_for ''u1'' example_db other_db"
    by (simp add: same_for_def owned_workouts_def owned_workoutExercises_def owned_sets_def
        other_db_def example_rows)
  have n: "workouts example_db \<noteq> workouts other_db" "sets example_db \<noteq> sets other_db"
    by (simp_all add: other_db_def example_rows)
  from getWorkoutsByDate_isolation [OF s, of 7200000 "Some 1756677600000"] s n
  show ?thesis by blast
qed

text \<open>
  As stated, that every query of the operation has the ownership predicate, the claim
  fails: the queries for the exercises of the two workouts found select on
  \<open>workoutId\<close> alone.
\<close>

theorem exercise_queries_without_ownership_predicate:
  "statements (snd (getWorkoutsByDate 7200000 (Some ''u1'') (Some 1756677600000) example_db)) =
     [SelectWorkouts [UserIdEq ''u1'', DateEq ''2025-09-01''],
      SelectWorkoutExercises [WorkoutIdEq 2], SelectWorkoutExercises [WorkoutIdEq 1]] \<and>
   \<not> list_all (has_ownership_predicate ''u1'')
       (statements (snd (getWorkoutsByDate 7200000 (Some ''u1'') (Some 1756677600000) example_db)))"
proof -
  have u: "''u1'' \<noteq> []" by simp
  have "statements (snd (getWorkoutsByDate 7200000 (Some ''u1'') (Some 1756677600000) example_db)) =
     [SelectWorkouts [UserIdEq ''u1'', DateEq ''2025-09-01''],
      SelectWorkoutExercises [WorkoutIdEq 2], SelectWorkoutExercises [WorkoutIdEq 1]]"
    unfolding getWorkoutsByDate_statements [OF u] format_2025_09_01 example_workouts_on
    by (simp add: example_rows)
  then show ?thesis by simp
qed

section \<open>Claim C3: update and delete are scoped to the caller's row\<close>

text \<open>
  Claim C3. \<open>updateWorkout\<close> and \<open>deleteWorkout\<close> change no workout row other than
  the one with the given id that the caller owns (and a delete takes no exercise of
  another workout with it). When no such row exists, because the id is unknown or
  because the workout belongs to someone else, the two cases cannot be told apart: the
  helper returns the same value for either, the tables stay as they were, and the action
  answers an accepted input with \<open>Workout not found or unauthorized\<close>.
\<close>

theorem not_found_or_unauthorized:
  assumes "no_target u i d" and "no_target u i' d'"
  shows "fst (updateWorkout (Some u) i data d) = fst (updateWorkout (Some u) i' data d') \<and>
         same_tables (snd (updateWorkout (Some u) i data d)) d \<and>
         fst (deleteWorkout (Some u) i d) = fst (deleteWorkout (Some u) i' d') \<and>
         same_tables (snd (deleteWorkout (Some u) i d)) d \<and>
         (int_of (ui_id uinput) = i \<longrightarrow>
            same_tables (snd (updateWorkoutAction (Some u) uinput d)) d \<and>
            (i' = i \<longrightarrow> fst (updateWorkoutAction (Some u) uinput d) =
                          fst (updateWorkoutAction (Some u) uinput d')) \<and>
            (u \<noteq> [] \<and> updateWorkoutSchema uinput = [] \<and>
             newDateFromString (ui_date uinput) \<noteq> None \<longrightarrow>
               fst (updateWorkoutAction (Some u) uinput d) =
                 Failure (Text ''Workout not found or unauthorized''))) \<and>
         (int_of (di_id dinput) = i \<longrightarrow>
            same_tables (snd (deleteWorkoutAction (Some u) dinput d)) d \<and>
            (i' = i \<longrightarrow> fst (deleteWorkoutAction (Some u) dinput d) =
                          fst (deleteWorkoutAction (Some u) dinput d')) \<and>
            (u \<noteq> [] \<and> deleteWorkoutSchema dinput = [] \<longrightarrow>
               fst (deleteWorkoutAction (Some u) dinput d) =
                 Failure (Text ''Workout not found or unauthorized''))) \<and>
         filter (\<lambda>r. \<not> is_target u i r) (workouts (snd (updateWorkout (Some u) i data d0))) =
           filter (\<lambda>r. \<not> is_target u i r) (workouts d0) \<and>
         filter (\<lambda>r. \<not> is_target u i r) (workouts (snd (deleteWorkout (Some u) i d0))) =
           filter (\<lambda>r. \<not> is_target u i r) (workouts d0) \<and>
         filter (\<lambda>we. we_workoutId we \<noteq> i) (workoutExercises (snd (deleteWorkout (Some u) i d0))) =
           filter (\<lambda>we. we_workoutId we \<noteq> i) (workoutExercises d0)"
proof -
  note u1 = updateWorkout_no_target [OF assms(1)] and u2 = updateWorkout_no_target [OF assms(2)]
  note d1 = deleteWorkout_no_target [OF assms(1)] and d2 = deleteWorkout_no_target [OF assms(2)]
  have a: "fst (updateWorkout (Some u) i data d) = fst (updateWorkout (Some u) i' data d')"
    by (simp only: u1(1) u2(1))
  have b: "fst (deleteWorkout (Some u) i d) = fst (deleteWorkout (Some u) i' d')"
    by (simp only: d1(1) d2(1))
  have c: "same_tables (snd (updateWorkoutAction (Some u) uinput d)) d \<and>
           (i' = i \<longrightarrow> fst (updateWorkoutAction (Some u) uinput d) =
                         fst (updateWorkoutAction (Some u) uinput d')) \<and>
           (u \<noteq> [] \<and> updateWorkoutSchema uinput = [] \<and>
             newDateFromString (ui_date uinput) \<noteq> None \<longrightarrow>
               fst (updateWorkoutAction (Some u) uinput d) =
                 Failure (Text ''Workout not found or unauthorized''))"
    if i: "int_of (ui_id uinput) = i"
  proof (intro conjI impI)
    have n: "no_target u (int_of (ui_id uinput)) d" using assms(1) i by simp
    show "same_tables (snd (updateWorkoutAction (Some u) uinput d)) d"
      by (rule updateWorkoutAction_no_target(2) [OF n])
    show "fst (updateWorkoutAction (Some u) uinput d) = fst (updateWorkoutAction (Some u) uinput d')"
      if "i' = i"
    proof -
      have n': "no_target u (int_of (ui_id uinput)) d'" using assms(2) i that by simp
      show ?thesis
        by (simp only: updateWorkoutAction_no_target(1) [OF n] updateWorkoutAction_no_target(1) [OF n'])
    qed
    show "fst (updateWorkoutAction (Some u) uinput d) = Failure (Text ''Workout not found or unauthorized'')"
      if "u \<noteq> [] \<and> updateWorkoutSchema uinput = [] \<and> newDateFromString (ui_date uinput) \<noteq> None"
      using that
      by (simp add: updateWorkoutAction_no_target(1) [OF n] update_action_outcome_def
          update_outcome_accepted)
  qed
  have e: "same_tables (snd (deleteWorkoutAction (Some u) dinput d)) d \<and>
           (i' = i \<longrightarrow> fst (deleteWorkoutAction (Some u) dinput d) =
                         fst (deleteWorkoutAction (Some u) dinput d')) \<and>
           (u \<noteq> [] \<and> deleteWorkoutSchema dinput = [] \<longrightarrow>
               fst (deleteWorkoutAction (Some u) dinput d) =
                 Failure (Text ''Workout not found or unauthorized''))"
    if i: "int_of (di_id dinput) = i"
  proof (intro conjI impI)
    have n: "no_target u (int_of (di_id dinput)) d" using assms(1) i by simp
    show "same_tables (snd (deleteWorkoutAction (Some u) dinput d)) d"
      by (rule deleteWorkoutAction_no_target(2) [OF n])
    show "fst (deleteWorkoutAction (Some u) dinput d) = fst (deleteWorkoutAction (Some u) dinput d')"
      if "i' = i"
    proof -
      have n': "no_target u (int_of (di_id dinput)) d'" using assms(2) i that by simp
      show ?thesis
        by (simp only: deleteWorkoutAction_no_target(1) [OF n] deleteWorkoutAction_no_target(1) [OF n'])
    qed
    show "fst (deleteWorkoutAction (Some u) dinput d) = Failure (Text ''Workout not found or unauthorized'')"
      if "u \<noteq> [] \<and> deleteWorkoutSchema dinput = []"
      using that by (simp add: deleteWorkoutAction_no_target(1) [OF n])
  qed
  show ?thesis
    using a b c e u1(2) d1(2) updateWorkout_others [of u i data d0] deleteWorkout_others [of u i d0]
      deleteWorkout_other_exercises [of i u d0]
    by blast
qed

theorem not_found_or_unauthorized_witness:
  "no_target ''u1'' 3 example_db \<and> no_target ''u1'' 9999999 example_db \<and>
   fst (updateWorkoutAction (Some ''u1'') (rename_input 3) example_db) =
     Failure (Text ''Workout not found or unauthorized'') \<and>
   fst (updateWorkoutAction (Some ''u1'') (rename_input 9999999) example_db) =
     Failure (Text ''Workout not found or unauthorized'') \<and>
   same_tables (snd (updateWorkoutAction (Some ''u1'') (rename_input 3) example_db)) example_db \<and>
   fst (deleteWorkout (Some ''u1'') 3 example_db) =
     fst (deleteWorkout (Some ''u1'') 9999999 example_db)"
proof -
  have n1: "no_target ''u1'' 3 example_db" and n2: "no_target ''u1'' 9999999 example_db"
    by (simp_all add: no_target_def is_target_def example_rows)
  have i1: "int_of (ui_id (rename_input 3)) = 3"
    and i2: "int_of (ui_id (rename_input 9999999)) = 9999999"
    by (simp_all add: rename_input_def int_of_def)
  have ok: "''u1'' \<noteq> [] \<and> updateWorkoutSchema (rename_input i) = [] \<and>
            newDateFromString (ui_date (rename_input i)) \<noteq> None" if "0 < i" for i
    using that
    by (simp add: rename_input_def updateWorkoutSchema_def int_positive_def string_min1_max_def
        string_min1_def optional_int_positive_def optional_string_max_def
        newDateFromString_2025_09_02)
  note t1 = not_found_or_unauthorized [OF n1 n2, where uinput = "rename_input 3"]
  note t2 = not_found_or_unauthorized [OF n2 n1, where uinput = "rename_input 9999999"]
  from t1 i1 ok [of 3]
  have a: "fst (updateWorkoutAction (Some ''u1'') (rename_input 3) example_db) =
     Failure (Text ''Workout not found or unauthorized'')"
    and c: "same_tables (snd (updateWorkoutAction (Some ''u1'') (rename_input 3) example_db)) example_db"
    and e: "fst (deleteWorkout (Some ''u1'') 3 example_db) =
     fst (deleteWorkout (Some ''u1'') 9999999 example_db)"
    by simp_all
  from t2 i2 ok [of 9999999]
  have b: "fst (updateWorkoutAction (Some ''u1'') (rename_input 9999999) example_db) =
     Failure (Text ''Workout not found or unauthorized'')"
    by simp
  from n1 n2 a b c e show ?thesis by blast
qed

section \<open>Claim C4: the date a write stores\<close>

text \<open>
  Claim C4 at a failing input. On a host two hours east of UTC, the Date of local
  midnight, 1 September 2025, has the local calendar date \<open>2025-09-01\<close>;
  \<open>createWorkout\<close> and \<open>updateWorkout\<close> store \<open>2025-08-31\<close>, the date part of
  \<^verbatim>\<open>toISOString()\<close>, which is the UTC calendar date of that instant.
\<close>

theorem createWorkout_stores_utc_date:
  "formatDateForDb 7200000 (Some 1756677600000) = ''2025-09-01'' \<and>
   fst (createWorkout (Some ''u1'')
          \<lparr>cd_name = ''Legs'', cd_date = Some 1756677600000, cd_durationMinutes = None,
           cd_notes = None\<rparr> empty_db) =
     Inr \<lparr>w_id = 1, w_userId = ''u1'', w_date = ''2025-08-31'', w_name = Some ''Legs'',
          w_durationMinutes = None, w_notes = None, w_createdAt = 0, w_updatedAt = 0\<rparr> \<and>
   fst (updateWorkout (Some ''u1'') 1
          \<lparr>ud_name = None, ud_date = Some (Some 1756677600000), ud_durationMinutes = None,
           ud_notes = None\<rparr> example_db) =
     Inr (Some (workout1\<lparr>w_date := ''2025-08-31''\<rparr>))"
proof -
  have c: "fst (createWorkout (Some ''u1'')
          \<lparr>cd_name = ''Legs'', cd_date = Some 1756677600000, cd_durationMinutes = None,
           cd_notes = None\<rparr> empty_db) =
     Inr \<lparr>w_id = 1, w_userId = ''u1'', w_date = ''2025-08-31'', w_name = Some ''Legs'',
          w_durationMinutes = None, w_notes = None, w_createdAt = 0, w_updatedAt = 0\<rparr>"
    by (simp add: createWorkout_def not_signed_in_def iso_date_part_local_midnight
        insert_workout_def empty_db_def Let_def)
  have u: "fst (updateWorkout (Some ''u1'') 1
          \<lparr>ud_name = None, ud_date = Some (Some 1756677600000), ud_durationMinutes = None,
           ud_notes = None\<rparr> example_db) =
     Inr (Some (workout1\<lparr>w_date := ''2025-08-31''\<rparr>))"
    by (simp add: updateWorkout_def not_signed_in_def iso_date_part_local_midnight
        update_workouts_def no_values_def apply_update_def first_row_def example_rows Let_def)
  from c u show ?thesis by (simp add: format_2025_09_01)
qed

section \<open>Claim C5: grouping exercises and sets\<close>

text \<open>
  Claim C5. For a signed-in user, \<open>getWorkoutsByDate\<close> returns the user's workouts
  of the date, each with the grouping of the rows the join returns for it. In every
  workout returned there is exactly one exercise entry for each distinct
  \<open>exerciseId\<close> of its rows, in the order of first occurrence and with that id; the
  sets of an entry are the sets joined to the rows of its exercise, sorted by
  \<open>setNumber\<close> ascending; a row without a set adds no set entry, so an exercise none
  of whose rows has a set appears with the empty list.
\<close>

theorem getWorkoutsByDate_groups_exercises:
  assumes "u \<noteq> []"
  shows "\<exists>views.
           fst (getWorkoutsByDate tza (Some u) date d) = Inr views \<and>
           views = map (grouped_view d) (workouts_on u (formatDateForDb tza date) d) \<and>
           (\<forall>v \<in> set views.
              wv_exercises v = grouped (fst (select_workout_exercises (wv_id v) d)) \<and>
              map ev_id (wv_exercises v) =
                exercise_keys (fst (select_workout_exercises (wv_id v) d)) \<and>
              distinct (map ev_id (wv_exercises v)) \<and>
              set (map ev_id (wv_exercises v)) =
                exerciseId_of ` set (fst (select_workout_exercises (wv_id v) d)) \<and>
              length (wv_exercises v) =
                card (exerciseId_of ` set (fst (select_workout_exercises (wv_id v) d))) \<and>
              (\<forall>e \<in> set (wv_exercises v).
                 ev_sets e =
                   sort_key setNumber
                     (map set_view_of
                        (joined_sets (ev_id e) (fst (select_workout_exercises (wv_id v) d)))) \<and>
                 sorted (map setNumber (ev_sets e)) \<and>
                 length (ev_sets e) =
                   length (filter (\<lambda>item. exerciseId_of item = ev_id e \<and> set_of item \<noteq> None)
                             (fst (select_workout_exercises (wv_id v) d))) \<and>
                 ((\<forall>item \<in> set (fst (select_workout_exercises (wv_id v) d)).
                     exerciseId_of item = ev_id e \<longrightarrow> set_of item = None) \<longrightarrow>
                  ev_sets e = [])))"
proof -
  let ?views = "map (grouped_view d) (workouts_on u (formatDateForDb tza date) d)"
  have r: "fst (getWorkoutsByDate tza (Some u) date d) = Inr ?views"
    by (rule getWorkoutsByDate_grouped_views [OF assms])
  have p: "wv_exercises v = grouped (fst (select_workout_exercises (wv_id v) d)) \<and>
              map ev_id (wv_exercises v) =
                exercise_keys (fst (select_workout_exercises (wv_id v) d)) \<and>
              distinct (map ev_id (wv_exercises v)) \<and>
              set (map ev_id (wv_exercises v)) =
                exerciseId_of ` set (fst (select_workout_exercises (wv_id v) d)) \<and>
              length (wv_exercises v) =
                card (exerciseId_of ` set (fst (select_workout_exercises (wv_id v) d))) \<and>
              (\<forall>e \<in> set (wv_exercises v).
                 ev_sets e =
                   sort_key setNumber
                     (map set_view_of
                        (joined_sets (ev_id e) (fst (select_workout_exercises (wv_id v) d)))) \<and>
                 sorted (map setNumber (ev_sets e)) \<and>
                 length (ev_sets e) =
                   length (filter (\<lambda>item. exerciseId_of item = ev_id e \<and> set_of item \<noteq> None)
                             (fst (select_workout_exercises (wv_id v) d))) \<and>
                 ((\<forall>item \<in> set (fst (select_workout_exercises (wv_id v) d)).
                     exerciseId_of item = ev_id e \<longrightarrow> set_of item = None) \<longrightarrow>
                  ev_sets e = []))"
    if "v \<in> set ?views" for v
  proof -
    define items where "items = fst (select_workout_exercises (wv_id v) d)"
    from that obtain w where "v = grouped_view d w" by auto
    then have g: "wv_exercises v = grouped items"
      by (simp add: grouped_view_def items_def)
    have k: "\<forall>item \<in> set items. e_id (exercise item) = exerciseId_of item"
      unfolding items_def by (simp add: select_workout_exercises_exercise)
    note q = grouped_properties [OF k]
    show ?thesis
      unfolding items_def [symmetric] g
      using q(1) q(2) q(3) q(4) q(5) q(6) q(7) q(8) by blast
  qed
  from r p show ?thesis by blast
qed

theorem getWorkoutsByDate_groups_exercises_witness:
  "''u1'' \<noteq> [] \<and>
   fst (getWorkoutsByDate 7200000 (Some ''u1'') (Some 1756677600000) example_db) =
     Inr [\<lparr>wv_id = 2, wv_name = Some ''Run'', wv_date = Some 1756684800000,
           wv_durationMinutes = None, wv_notes = None, wv_exercises = []\<rparr>,
          \<lparr>wv_id = 1, wv_name = Some ''Legs'', wv_date = Some 1756684800000,
           wv_durationMinutes = Some 60, wv_notes = None,
           wv_exercises =
             [\<lparr>ev_id = 7, ev_name = ''Squat'',
               ev_sets = [set_view_of (squat_set 2 1), set_view_of (squat_set 3 2),
                          set_view_of (squat_set 1 3)]\<rparr>,
              \<lparr>ev_id = 8, ev_name = ''Lunge'', ev_sets = []\<rparr>]\<rparr>] \<and>
   map setNumber [set_view_of (squat_set 2 1), set_view_of (squat_set 3 2),
                  set_view_of (squat_set 1 3)] = [1, 2, 3]"
proof -
  have h: "''u1'' \<noteq> []" by simp
  have v: "map (grouped_view example_db) (workouts_on ''u1'' ''2025-09-01'' example_db) =
     [\<lparr>wv_id = 2, wv_name = Some ''Run'', wv_date = Some 1756684800000,
           wv_durationMinutes = None, wv_notes = None, wv_exercises = []\<rparr>,
          \<lparr>wv_id = 1, wv_name = Some ''Legs'', wv_date = Some 1756684800000,
           wv_durationMinutes = Some 60, wv_notes = None,
           wv_exercises =
             [\<lparr>ev_id = 7, ev_name = ''Squat'',
               ev_sets = [set_view_of (squat_set 2 1), set_view_of (squat_set 3 2),
                          set_view_of (squat_set 1 3)]\<rparr>,
              \<lparr>ev_id = 8, ev_name = ''Lunge'', ev_sets = []\<rparr>]\<rparr>]"
    unfolding example_workouts_on
    using example_no_rows example_grouped
    by (simp add: grouped_view_def workout1_def workout2_def newDateFromString_2025_09_01
        grouped_def exercise_keys_def)
  have n: "map setNumber [set_view_of (squat_set 2 1), set_view_of (squat_set 3 2),
                  set_view_of (squat_set 1 3)] = [1, 2, 3]"
    by (simp add: set_view_of_def squat_set_def)
  from getWorkoutsByDate_groups_exercises [OF h, of 7200000 "Some 1756677600000" example_db]
  have "fst (getWorkoutsByDate 7200000 (Some ''u1'') (Some 1756677600000) example_db) =
      Inr (map (grouped_view example_db) (workouts_on ''u1'' ''2025-09-01'' example_db))"
    unfolding format_2025_09_01 by blast
  with h n show ?thesis unfolding v by simp
qed

section \<open>Claim C6: the dates of a month\<close>

text \<open>
  Claim C6 at a failing input. For September 2025, with workouts logged for the 15th
  before the workout for the 1st, \<open>getWorkoutDatesForMonth\<close> returns each date of
  the month once and leaves out 31 August, but in the order the rows are stored: the 15th
  before the 1st. Its query asks for no order. The query by user and range,
  \<open>getWorkoutDatesForUser\<close>, orders by date and returns the 1st before the 15th.
\<close>

theorem getWorkoutDatesForMonth_unordered:
  "fst (getWorkoutDatesForMonth 7200000 (Some ''u1'') 2025 8 september_db) =
     Inr [Some 1757887200000, Some 1756677600000] \<and>
   getWorkoutDatesForUser ''u1'' ''2025-09-01'' ''2025-09-30'' september_db =
     [''2025-09-01'', ''2025-09-15'']"
proof -
  have a: "fst (getWorkoutDatesForMonth 7200000 (Some ''u1'') 2025 8 september_db) =
     Inr [Some 1757887200000, Some 1756677600000]"
    by (simp add: getWorkoutDatesForMonth_def not_signed_in_def Let_def case_prod_unfold
        month_bounds_2025_09 format_2025_09_01 format_2025_09_30 september_dates parse_september)
  have b: "getWorkoutDatesForUser ''u1'' ''2025-09-01'' ''2025-09-30'' september_db =
     [''2025-09-01'', ''2025-09-15'']"
    by (simp add: getWorkoutDatesForUser_def september_dates order_by_date_def date_ordinals)
  from a b show ?thesis by simp
qed

section \<open>Claim C7: validation before every write\<close>

text \<open>
  Claim C7 at a failing input. A name of 101 characters has an issue under the schema
  of the create action, but the quick-create action of lib/actions/workouts.ts has no
  schema: it inserts the row with that name.
\<close>

theorem quick_create_skips_validation:
  "createWorkoutSchema \<lparr>ci_name = long_name, ci_date = ''2025-09-01'',
      ci_durationMinutes = None, ci_notes = None\<rparr> = [Default too_big] \<and>
   statements (snd (createWorkout_lib (Some ''u1'') ''2025-09-01'' (Some long_name) empty_db)) =
     [InsertWorkout] \<and>
   map w_name (workouts (snd (createWorkout_lib (Some ''u1'') ''2025-09-01'' (Some long_name) empty_db))) =
     [Some long_name] \<and>
   (\<exists>row. fst (createWorkout_lib (Some ''u1'') ''2025-09-01'' (Some long_name) empty_db) = Inr row)"
proof -
  have n: "long_name \<noteq> []" using length_long_name by auto
  have a: "createWorkoutSchema \<lparr>ci_name = long_name, ci_date = ''2025-09-01'',
      ci_durationMinutes = None, ci_notes = None\<rparr> = [Default too_big]"
    by (simp add: createWorkoutSchema_def string_min1_max_def string_min1_def
        optional_int_positive_def optional_string_max_def length_long_name)
  have b: "createWorkout_lib (Some ''u1'') ''2025-09-01'' (Some long_name) empty_db =
      (let (row, d') = insert_workout ''u1'' ''2025-09-01'' (Some long_name) None None empty_db
       in (Inr row, d'))"
    using n by (simp add: createWorkout_lib_def not_signed_in_def)
  show ?thesis
    unfolding b using a by (simp add: insert_workout_def Let_def empty_db_def)
qed

section \<open>Claim C8: no caller, no storage access\<close>

text \<open>
  Claim C8, as amended. When the identity provider resolves no caller, no operation
  reaches the storage: the database is as it was and no statement is sent. The helpers
  of the read and write layers and the quick-create action throw \<open>Unauthorized\<close>.
  The actions of the create and edit forms validate first and catch what the helper
  throws: they return the first validation issue if there is one, and otherwise the
  failure \<^verbatim>\<open>Failed to create workout\<close>, \<^verbatim>\<open>Failed to update workout\<close> or
  \<^verbatim>\<open>Failed to delete workout\<close>, as an ordinary result.
\<close>

theorem unauthenticated_calls_reach_no_storage:
  assumes "not_signed_in caller"
  shows "getWorkoutsByDate tza caller date d = (Inl Unauthorized, d) \<and>
         getWorkoutDatesForMonth tza caller year month d = (Inl Unauthorized, d) \<and>
         createWorkout caller cdata d = (Inl Unauthorized, d) \<and>
         getRecentWorkouts caller limit d = (Inl Unauthorized, d) \<and>
         getWorkoutById caller workoutId d = (Inl Unauthorized, d) \<and>
         updateWorkout caller workoutId udata d = (Inl Unauthorized, d) \<and>
         deleteWorkout caller workoutId d = (Inl Unauthorized, d) \<and>
         createWorkout_lib caller dateString name d = (Inl Unauthorized, d) \<and>
         createWorkoutAction caller cinput d =
           (case createWorkoutSchema cinput of
              issue # _ \<Rightarrow> Failure issue
            | [] \<Rightarrow> Failure (Text ''Failed to create workout''), d) \<and>
         updateWorkoutAction caller uinput d =
           (case updateWorkoutSchema uinput of
              issue # _ \<Rightarrow> Failure issue
            | [] \<Rightarrow> Failure (Text ''Failed to update workout''), d) \<and>
         deleteWorkoutAction caller dinput d =
           (case deleteWorkoutSchema dinput of
              issue # _ \<Rightarrow> Failure issue
            | [] \<Rightarrow> Failure (Text ''Failed to delete workout''), d)"
proof -
  have c: "createWorkout caller cdata d = (Inl Unauthorized, d)" for cdata
    using assms by (simp add: createWorkout_def)
  have u: "updateWorkout caller workoutId udata d = (Inl Unauthorized, d)" for workoutId udata
    using assms by (simp add: updateWorkout_def)
  have x: "deleteWorkout caller workoutId d = (Inl Unauthorized, d)" for workoutId
    using assms by (simp add: deleteWorkout_def)
  have r: "getWorkoutsByDate tza caller date d = (Inl Unauthorized, d)"
    "getWorkoutDatesForMonth tza caller year month d = (Inl Unauthorized, d)"
    "getRecentWorkouts caller limit d = (Inl Unauthorized, d)"
    "getWorkoutById caller workoutId d = (Inl Unauthorized, d)"
    "createWorkout_lib caller dateString name d = (Inl Unauthorized, d)"
    using assms
    by (simp_all add: getWorkoutsByDate_def getWorkoutDatesForMonth_def getRecentWorkouts_def
        getWorkoutById_def createWorkout_lib_def)
  have ca: "createWorkoutAction caller cinput d =
           (case createWorkoutSchema cinput of
              issue # _ \<Rightarrow> Failure issue
            | [] \<Rightarrow> Failure (Text ''Failed to create workout''), d)"
    by (simp add: createWorkoutAction_def c split: list.splits)
  have ua: "updateWorkoutAction caller uinput d =
           (case updateWorkoutSchema uinput of
              issue # _ \<Rightarrow> Failure issue
            | [] \<Rightarrow> Failure (Text ''Failed to update workout''), d)"
    by (simp add: updateWorkoutAction_def u split: list.splits)
  have da: "deleteWorkoutAction caller dinput d =
           (case deleteWorkoutSchema dinput of
              issue # _ \<Rightarrow> Failure issue
            | [] \<Rightarrow> Failure (Text ''Failed to delete workout''), d)"
    by (simp add: deleteWorkoutAction_def x split: list.splits)
  from c u x r ca ua da show ?thesis by simp
qed

theorem unauthenticated_calls_reach_no_storage_witness:
  "not_signed_in None \<and>
   getWorkoutsByDate 0 None (Some 1756677600000) example_db = (Inl Unauthorized, example_db) \<and>
   statements (snd (getWorkoutById None 1 example_db)) = [] \<and>
   deleteWorkout None 1 example_db = (Inl Unauthorized, example_db) \<and>
   deleteWorkoutAction None \<lparr>di_id = Integer 1\<rparr> example_db =
     (Failure (Text ''Failed to delete workout''), example_db) \<and>
   deleteWorkoutAction None \<lparr>di_id = Integer 0\<rparr> example_db =
     (Failure (Default too_small), example_db)"
proof -
  have h: "not_signed_in None" by (simp add: not_signed_in_def)
  have s: "statements example_db = []" by (simp add: example_db_def)
  have v: "deleteWorkoutSchema \<lparr>di_id = Integer 1\<rparr> = []"
    "deleteWorkoutSchema \<lparr>di_id = Integer 0\<rparr> = [Default too_small]"
    by (simp_all add: deleteWorkoutSchema_def int_positive_def)
  from unauthenticated_calls_reach_no_storage
         [OF h, of 0 "Some 1756677600000" example_db _ _ _ _ 1 _ _ _ _ _ "\<lparr>di_id = Integer 1\<rparr>"]
       unauthenticated_calls_reach_no_storage
         [OF h, of _ _ example_db _ _ _ _ _ _ _ _ _ _ "\<lparr>di_id = Integer 0\<rparr>"]
  show ?thesis using h s by (simp add: v)
qed

text \<open>
  As stated, with the failure thrown by every operation, the claim fails on the three
  form actions: called without a caller on a valid input they return a failure result.
\<close>

theorem unauthenticated_action_returns_failure:
  "createWorkoutAction None
     \<lparr>ci_name = ''Legs'', ci_date = ''2025-09-01'', ci_durationMinutes = None, ci_notes = None\<rparr>
     example_db = (Failure (Text ''Failed to create workout''), example_db) \<and>
   updateWorkoutAction None (rename_input 1) example_db =
     (Failure (Text ''Failed to update workout''), example_db) \<and>
   deleteWorkoutAction None \<lparr>di_id = Integer 1\<rparr> example_db =
     (Failure (Text ''Failed to delete workout''), example_db)"
  by (simp add: createWorkoutAction_def updateWorkoutAction_def deleteWorkoutAction_def
      createWorkoutSchema_def updateWorkoutSchema_def deleteWorkoutSchema_def
      string_min1_max_def string_min1_def optional_string_max_def int_positive_def
      optional_int_positive_def rename_input_def createWorkout_def updateWorkout_def
      deleteWorkout_def not_signed_in_def)

section \<open>Claim C9: the workouts of a day, latest first\<close>

text \<open>
  Claim C9. When a signed-in user has two workouts on the queried date, one created
  after the other, \<open>getWorkoutsByDate\<close> lists the one created later before the one
  created earlier; so does the query by user and date.
\<close>

theorem same_day_workouts_latest_first:
  assumes "u \<noteq> []"
    and "older \<in> set (workouts d)" and "newer \<in> set (workouts d)"
    and "w_userId older = u" and "w_userId newer = u"
    and "w_date older = formatDateForDb tza date" and "w_date newer = formatDateForDb tza date"
    and "w_createdAt older < w_createdAt newer"
  shows "(\<exists>views pre mid post.
            fst (getWorkoutsByDate tza (Some u) date d) = Inr views \<and>
            map wv_id views = pre @ [w_id newer] @ mid @ [w_id older] @ post) \<and>
         (\<exists>pre mid post.
            map (\<lambda>w. w_id (wd_row w)) (getWorkoutsByUserAndDate u (formatDateForDb tza date) d) =
              pre @ [w_id newer] @ mid @ [w_id older] @ post)"
proof -
  let ?rows = "filter (\<lambda>w. w_userId w = u \<and> w_date w = formatDateForDb tza date) (workouts d)"
  have "older \<in> set ?rows" "newer \<in> set ?rows" using assms by simp_all
  from order_by_createdAt_desc_before [OF this assms(8)]
  obtain pre mid post where s: "order_by_createdAt_desc ?rows = pre @ [newer] @ mid @ [older] @ post"
    by blast
  then have ids: "map w_id (order_by_createdAt_desc ?rows) =
      map w_id pre @ [w_id newer] @ map w_id mid @ [w_id older] @ map w_id post"
    by simp
  from getWorkoutsByDate_ids [OF assms(1), of tza date d]
  obtain views where v: "fst (getWorkoutsByDate tza (Some u) date d) = Inr views"
    and "map wv_id views = map w_id (order_by_createdAt_desc ?rows)" by blast
  with ids have a: "\<exists>views pre mid post.
            fst (getWorkoutsByDate tza (Some u) date d) = Inr views \<and>
            map wv_id views = pre @ [w_id newer] @ mid @ [w_id older] @ post"
    by metis
  have "map (\<lambda>w. w_id (wd_row w)) (getWorkoutsByUserAndDate u (formatDateForDb tza date) d) =
      map w_id (order_by_createdAt_desc ?rows)"
    by (simp add: getWorkoutsByUserAndDate_def details_of_def comp_def matching_user_date_fun)
  with ids have b: "\<exists>pre mid post.
            map (\<lambda>w. w_id (wd_row w)) (getWorkoutsByUserAndDate u (formatDateForDb tza date) d) =
              pre @ [w_id newer] @ mid @ [w_id older] @ post"
    by metis
  from a b show ?thesis by blast
qed

theorem same_day_workouts_latest_first_witness:
  "''u1'' \<noteq> [] \<and> workout1 \<in> set (workouts example_db) \<and> workout2 \<in> set (workouts example_db) \<and>
   w_userId workout1 = ''u1'' \<and> w_userId workout2 = ''u1'' \<and>
   w_date workout1 = formatDateForDb 7200000 (Some 1756677600000) \<and>
   w_date workout2 = formatDateForDb 7200000 (Some 1756677600000) \<and>
   w_createdAt workout1 < w_createdAt workout2 \<and>
   (\<exists>views pre mid post.
      fst (getWorkoutsByDate 7200000 (Some ''u1'') (Some 1756677600000) example_db) = Inr views \<and>
      map wv_id views = pre @ [2] @ mid @ [1] @ post)"
proof -
  have h1: "''u1'' \<noteq> []" by simp
  have h2: "workout1 \<in> set (workouts example_db)" and h3: "workout2 \<in> set (workouts example_db)"
    by (simp_all add: example_db_def)
  have h4: "w_userId workout1 = ''u1''" and h5: "w_userId workout2 = ''u1''"
    by (simp_all add: workout1_def workout2_def)
  have h6: "w_date workout1 = formatDateForDb 7200000 (Some 1756677600000)"
    and h7: "w_date workout2 = formatDateForDb 7200000 (Some 1756677600000)"
    by (simp_all add: workout1_def workout2_def format_2025_09_01)
  have h8: "w_createdAt workout1 < w_createdAt workout2"
    by (simp add: workout1_def workout2_def)
  have i: "w_id workout1 = 1" "w_id workout2 = 2" by (simp_all add: workout1_def workout2_def)
  from same_day_workouts_latest_first [OF h1 h2 h3 h4 h5 h6 h7 h8]
  have "\<exists>views pre mid post.
      fst (getWorkoutsByDate 7200000 (Some ''u1'') (Some 1756677600000) example_db) = Inr views \<and>
      map wv_id views = pre @ [2] @ mid @ [1] @ post"
    unfolding i by blast
  with h1 h2 h3 h4 h5 h6 h7 h8 show ?thesis by blast
qed

section \<open>Claim C10: the quick-create action stores the fallback name\<close>

text \<open>
  Claim C10. Every call of the quick-create action by a signed-in caller appends one
  row to the workouts table whose name is neither null nor empty; when the name
  argument is omitted or empty the stored name is the text \<open>Untitled Workout\<close>.
\<close>

theorem createWorkout_lib_name:
  assumes "\<not> not_signed_in caller"
  shows "\<exists>row. createWorkout_lib caller date name d =
           (Inr row, sent InsertWorkout
              (d\<lparr>workouts := workouts d @ [row], workouts_id_seq := workouts_id_seq d + 1\<rparr>)) \<and>
         w_name row \<noteq> None \<and> w_name row \<noteq> Some [] \<and>
         w_name row = (if name = None \<or> name = Some [] then Some ''Untitled Workout'' else name)"
  using assms
  by (auto simp: createWorkout_lib_def insert_workout_def Let_def split: option.splits)

theorem createWorkout_lib_name_witness:
  "\<not> not_signed_in (Some ''u1'') \<and>
   (\<exists>row. fst (createWorkout_lib (Some ''u1'') ''2025-09-01'' (Some []) empty_db) = Inr row \<and>
          w_name row = Some ''Untitled Workout'')"
proof -
  have h: "\<not> not_signed_in (Some ''u1'')" by (simp add: not_signed_in_def)
  from createWorkout_lib_name [OF h, of "''2025-09-01''" "Some []" empty_db]
  obtain row where "fst (createWorkout_lib (Some ''u1'') ''2025-09-01'' (Some []) empty_db) = Inr row"
    and "w_name row = Some ''Untitled Workout''" by auto
  with h show ?thesis by blast
qed

end
